theory Spec2Isabelle
  imports Main "HOL-Library.Sublist"
begin

section \<open>Python strings\<close>

text \<open>
  Strings are lists of characters; a character is a code point below 256. The helpers
  below are the Python string methods that \<open>send_correspondence_email\<close> calls:
  \<open>str.strip\<close>, \<open>str.split\<close>, \<open>str.join\<close>, \<open>str.replace\<close>, \<open>str.title\<close> and \<open>str\<close>
  of a non-negative integer.

  \<open>is_space\<close> is \<open>str.isspace\<close> on these code points, the characters \<open>str.strip()\<close>
  removes: tab to carriage return (9 to 13), the four separators 28 to 31, the space (32),
  next line (133, U+0085) and the no-break space (160, U+00A0).

  The handler calls \<open>str.title\<close> on the four names of the required fields only, which
  are ASCII; the cased characters of \<open>title\<close> are the ASCII letters.
\<close>

definition is_space :: "char \<Rightarrow> bool" where
  "is_space c =
     (let n = (of_char c :: nat)
      in (9 \<le> n \<and> n \<le> 13) \<or> (28 \<le> n \<and> n \<le> 32) \<or> n = 133 \<or> n = 160)"

definition strip :: "string \<Rightarrow> string" where
  "strip s = rev (dropWhile is_space (rev (dropWhile is_space s)))"

fun split :: "char \<Rightarrow> string \<Rightarrow> string list" where
  "split sep [] = [[]]"
| "split sep (c # cs) =
     (if c = sep then [] # split sep cs
      else (case split sep cs of [] \<Rightarrow> [[c]] | w # ws \<Rightarrow> (c # w) # ws))"

fun join :: "string \<Rightarrow> string list \<Rightarrow> string" where
  "join sep [] = []"
| "join sep [x] = x"
| "join sep (x # y # ys) = x @ sep @ join sep (y # ys)"

definition replace_char :: "char \<Rightarrow> char \<Rightarrow> string \<Rightarrow> string" where
  "replace_char old new s = map (\<lambda>c. if c = old then new else c) s"

definition ascii_lowercase :: string where
  "ascii_lowercase = ''abcdefghijklmnopqrstuvwxyz''"

definition ascii_uppercase :: string where
  "ascii_uppercase = ''ABCDEFGHIJKLMNOPQRSTUVWXYZ''"

definition islower :: "char \<Rightarrow> bool" where
  "islower c = (c \<in> set ascii_lowercase)"

definition isupper :: "char \<Rightarrow> bool" where
  "isupper c = (c \<in> set ascii_uppercase)"

definition upper :: "char \<Rightarrow> char" where
  "upper c = (case map_of (zip ascii_lowercase ascii_uppercase) c of Some u \<Rightarrow> u | None \<Rightarrow> c)"

definition lower :: "char \<Rightarrow> char" where
  "lower c = (case map_of (zip ascii_uppercase ascii_lowercase) c of Some l \<Rightarrow> l | None \<Rightarrow> c)"

text \<open>
  \<open>str.title\<close>: a cased character that follows an uncased one (or starts the string) is
  upper-cased, every other cased character is lower-cased.
\<close>

fun title_from :: "bool \<Rightarrow> string \<Rightarrow> string" where
  "title_from previous_is_cased [] = []"
| "title_from previous_is_cased (c # cs) =
     (if islower c then (if previous_is_cased then c else upper c) # title_from True cs
      else if isupper c then (if previous_is_cased then lower c else c) # title_from True cs
      else c # title_from False cs)"

definition title :: "string \<Rightarrow> string" where
  "title s = title_from False s"

definition digit_char :: "nat \<Rightarrow> char" where
  "digit_char d = char_of (48 + d)"

fun str_nat :: "nat \<Rightarrow> string" where
  "str_nat n = (if n < 10 then [digit_char n] else str_nat (n div 10) @ [digit_char (n mod 10)])"

declare str_nat.simps [simp del]

section \<open>Data model\<close>

text \<open>
  The record store. An \<open>Entry\<close> belongs to a section and owns \<open>EntryField\<close> rows, kept
  here in the order \<open>fields.all()\<close> returns them; a row is a key and a value, and its
  position in the list stands for its primary key. \<open>DocumentMetadata\<close> rows describe the
  files attached to an entry.
\<close>

type_synonym timestamp = nat

record entry =
  section_key :: string
  entry_fields :: "(string \<times> string) list"
  modified_at :: timestamp

record document_metadata =
  doc_entry :: nat
  filename :: string
  s3_key :: string
  is_deleted :: bool

record database =
  entries :: "nat \<rightharpoonup> entry"
  documents :: "document_metadata list"

record user =
  full_name :: string
  username :: string

record request =
  content_type :: "string option"
  req_user :: user

record email_message =
  msg_subject :: string
  msg_body :: string
  msg_from_email :: string
  msg_to :: "string list"
  msg_cc :: "string list option"
  msg_bcc :: "string list option"
  msg_reply_to :: "string list option"
  msg_alternatives :: "(string \<times> string) list"
  msg_attachments :: "(string \<times> string \<times> string) list"

record email_context =
  ctx_subject :: string
  ctx_body_content :: string
  ctx_email_type :: string
  ctx_priority :: string
  ctx_purge_info :: "(string \<times> string) list"
  ctx_sender_name :: string
  ctx_email_date :: string

datatype s3_result = S3_Body string | S3_ClientError string | S3_Exception string

datatype db_op = BulkCreate | BulkUpdate | SaveEntry

datatype exn = DoesNotExist | Unexpected string

text \<open>
  Everything the handler reaches outside its own code is a field of the environment:
  the settings, the template engine, the object store, the mail transport, the clock and
  the failures of the record store. An exception is represented by its \<open>str\<close>.
  \<^item> \<open>db_read_error\<close>: an exception other than \<open>DoesNotExist\<close> raised by the first query;
  \<^item> \<open>entry_id_of\<close>: the conversion of a stored \<open>purge_record_id\<close> to an \<open>Entry\<close> id, which
    the ORM performs and which raises on a malformed id (\<open>Inl\<close>);
  \<^item> \<open>db_write_error\<close>: an exception raised by a write inside the transaction;
  \<^item> \<open>render_to_string\<close>: \<open>Inl\<close> when rendering raises;
  \<^item> \<open>s3_get_object\<close>: the bytes stored under a key of the bucket named by
    \<open>BLUEBIRD_FILES_BUCKET\<close>, or the exception raised;
  \<^item> \<open>send\<close>: \<open>None\<close> when the transport accepts the message, \<open>Some e\<close> when it raises;
  \<^item> \<open>now k\<close>: what the \<open>k\<close>-th call of \<open>timezone.now()\<close> in this request returns.
\<close>

record env =
  DEFAULT_FROM_EMAIL :: string
  db_read_error :: "string option"
  entry_id_of :: "string \<Rightarrow> string + nat"
  db_write_error :: "db_op \<Rightarrow> string option"
  render_to_string :: "email_context \<Rightarrow> string + string"
  strip_tags :: "string \<Rightarrow> string"
  s3_get_object :: "string \<Rightarrow> s3_result"
  guess_type :: "string \<Rightarrow> string option"
  send :: "email_message \<Rightarrow> string option"
  now :: "nat \<Rightarrow> timestamp"
  isoformat :: "timestamp \<Rightarrow> string"
  strftime_ymd :: "timestamp \<Rightarrow> string"

datatype level = SUCCESS | WARNING | ERROR

datatype log_entry = Log level string bool

datatype json = JBool bool | JStr string

datatype response =
  JsonResponse "(string \<times> json) list"
| Redirect string "string option"

text \<open>
  What one request leaves behind: the response, the record store, the flash messages, the
  log (the flag of an entry is \<open>exc_info\<close>) and the messages handed to the mail transport.
\<close>

record outcome =
  response :: response
  db_after :: database
  flash :: "(level \<times> string) list"
  logged :: "log_entry list"
  outbox :: "email_message list"

section \<open>The handler\<close>

subsection \<open>Reading the record\<close>

text \<open>\<open>{field.key: field.value for field in entry.fields.all()}\<close>: a later row wins.\<close>

definition dict_of :: "(string \<times> string) list \<Rightarrow> (string \<rightharpoonup> string)" where
  "dict_of rows = map_of (rev rows)"

definition get_default :: "(string \<rightharpoonup> string) \<Rightarrow> string \<Rightarrow> string \<Rightarrow> string" where
  "get_default d k dflt = (case d k of None \<Rightarrow> dflt | Some v \<Rightarrow> v)"

text \<open>Truthiness of \<open>d.get(k)\<close>: the key is there and its value is not the empty string.\<close>

definition truthy :: "string option \<Rightarrow> bool" where
  "truthy v = (case v of None \<Rightarrow> False | Some s \<Rightarrow> s \<noteq> [])"

definition get_entry :: "database \<Rightarrow> nat \<Rightarrow> string list \<Rightarrow> exn + entry" where
  "get_entry db entry_id section_keys =
     (case entries db entry_id of
        None \<Rightarrow> Inl DoesNotExist
      | Some e \<Rightarrow> if section_key e \<in> set section_keys then Inr e else Inl DoesNotExist)"

definition required_fields :: "string list" where
  "required_fields = [''recipient_email'', ''subject'', ''email_date'', ''email_type'']"

definition missing_fields :: "(string \<rightharpoonup> string) \<Rightarrow> string list" where
  "missing_fields email_fields =
     [title (replace_char (CHR ''_'') (CHR '' '') field).
        field \<leftarrow> required_fields, \<not> truthy (email_fields field)]"

subsection \<open>Responses\<close>

definition wants_json :: "request \<Rightarrow> bool" where
  "wants_json req = (content_type req = Some ''application/json'')"

definition json_error :: "string \<Rightarrow> response" where
  "json_error error_msg = JsonResponse [(''success'', JBool False), (''error'', JStr error_msg)]"

definition redirect_back :: "(string \<rightharpoonup> string) \<Rightarrow> response" where
  "redirect_back email_fields =
     (case email_fields ''purge_record_id'' of
        None \<Rightarrow> Redirect ''bluebird:view_internal_purge_records'' None
      | Some purge_record_id \<Rightarrow>
          if purge_record_id \<noteq> []
          then Redirect ''bluebird:view_email_correspondence_for_purge'' (Some purge_record_id)
          else Redirect ''bluebird:view_internal_purge_records'' None)"

text \<open>
  The error exit used after the record has been read: a JSON body for a JSON caller,
  otherwise a flash message and a redirect.
\<close>

definition error_exit ::
  "request \<Rightarrow> (string \<rightharpoonup> string) \<Rightarrow> level \<Rightarrow> string \<Rightarrow> database \<Rightarrow> log_entry list \<Rightarrow>
   email_message list \<Rightarrow> outcome" where
  "error_exit req email_fields lvl error_msg db lg out =
     (if wants_json req
      then \<lparr>response = json_error error_msg, db_after = db, flash = [], logged = lg, outbox = out\<rparr>
      else \<lparr>response = redirect_back email_fields, db_after = db, flash = [(lvl, error_msg)],
            logged = lg, outbox = out\<rparr>)"

text \<open>The two outer handlers: they end at the last line's redirect to the listing view.\<close>

definition outer_exit ::
  "request \<Rightarrow> string \<Rightarrow> database \<Rightarrow> log_entry list \<Rightarrow> email_message list \<Rightarrow> outcome" where
  "outer_exit req error_msg db lg out =
     (if wants_json req
      then \<lparr>response = json_error error_msg, db_after = db, flash = [], logged = lg, outbox = out\<rparr>
      else \<lparr>response = Redirect ''bluebird:view_internal_purge_records'' None, db_after = db,
            flash = [(ERROR, error_msg)], logged = lg, outbox = out\<rparr>)"

definition unexpected_exit ::
  "request \<Rightarrow> string \<Rightarrow> database \<Rightarrow> log_entry list \<Rightarrow> email_message list \<Rightarrow> outcome" where
  "unexpected_exit req e db lg out =
     outer_exit req (''Error sending email: '' @ e) db
       (lg @ [Log ERROR (''Unexpected error in send_correspondence_email: '' @ e) True]) out"

subsection \<open>Preparing the message\<close>

text \<open>\<open>[email.strip() for email in s.split(",") if email.strip()] if s else []\<close>\<close>

definition parse_address_list :: "string \<Rightarrow> string list" where
  "parse_address_list s =
     (if s \<noteq> []
      then [strip email. email \<leftarrow> split (CHR '','') s, strip email \<noteq> []]
      else [])"

text \<open>
  The linked record. \<open>Entry.DoesNotExist\<close> is passed over and leaves \<open>purge_info\<close> the
  empty dictionary; any other exception leaves the block (\<open>Inl\<close>).
\<close>

definition lookup_purge_info ::
  "env \<Rightarrow> database \<Rightarrow> (string \<rightharpoonup> string) \<Rightarrow> string + (string \<times> string) list" where
  "lookup_purge_info env db email_fields =
     (case email_fields ''purge_record_id'' of
        None \<Rightarrow> Inr []
      | Some purge_record_id \<Rightarrow>
          if purge_record_id = [] then Inr []
          else
            (case entry_id_of env purge_record_id of
               Inl e \<Rightarrow> Inl e
             | Inr i \<Rightarrow>
                 (case get_entry db i [''purge/internal'', ''purge/ic''] of
                    Inl DoesNotExist \<Rightarrow> Inr []
                  | Inl (Unexpected e) \<Rightarrow> Inl e
                  | Inr purge_record \<Rightarrow>
                      (let purge_fields = dict_of (entry_fields purge_record)
                       in Inr [(''id'', purge_record_id),
                               (''account'', get_default purge_fields ''account'' ''N/A''),
                               (''provider'', get_default purge_fields ''provider'' ''N/A''),
                               (''facility'', get_default purge_fields ''facility'' ''N/A''),
                               (''status'', get_default purge_fields ''status'' ''N/A'')]))))"

definition sender_name :: "request \<Rightarrow> string" where
  "sender_name req =
     (if full_name (req_user req) \<noteq> [] then full_name (req_user req)
      else username (req_user req))"

definition build_email_context ::
  "env \<Rightarrow> request \<Rightarrow> (string \<rightharpoonup> string) \<Rightarrow> (string \<times> string) list \<Rightarrow> email_context" where
  "build_email_context env req email_fields purge_info =
     \<lparr>ctx_subject = get_default email_fields ''subject'' '''',
      ctx_body_content = get_default email_fields ''body_content'' '''',
      ctx_email_type = get_default email_fields ''email_type'' '''',
      ctx_priority = get_default email_fields ''priority'' ''Normal'',
      ctx_purge_info = purge_info,
      ctx_sender_name = sender_name req,
      ctx_email_date = get_default email_fields ''email_date'' (strftime_ymd env (now env 0))\<rparr>"

definition fallback_html :: "request \<Rightarrow> (string \<rightharpoonup> string) \<Rightarrow> string" where
  \<open>fallback_html req email_fields =
     ''\<newline>''
     @ ''                <html>\<newline>''
     @ ''                    <body>\<newline>''
     @ ''                        <div style="font-family: Arial, sans-serif; padding: 20px;">\<newline>''
     @ ''                            <h2>''
     @ get_default email_fields ''subject'' ''''
     @ ''</h2>\<newline>''
     @ ''                            <div style="white-space: pre-wrap;">''
     @ get_default email_fields ''body_content'' ''''
     @ ''</div>\<newline>''
     @ ''                            <hr style="margin: 20px 0;">\<newline>''
     @ ''                            <p style="color: #666; font-size: 12px;">\<newline>''
     @ ''                                This email was sent via the Purge Workflow System<br>\<newline>''
     @ ''                                Email Type: ''
     @ get_default email_fields ''email_type'' ''N/A''
     @ ''<br>\<newline>''
     @ ''                                Priority: ''
     @ get_default email_fields ''priority'' ''Normal''
     @ ''<br>\<newline>''
     @ ''                                Sent by: ''
     @ sender_name req
     @ ''\<newline>''
     @ ''                            </p>\<newline>''
     @ ''                        </div>\<newline>''
     @ ''                    </body>\<newline>''
     @ ''                </html>\<newline>''
     @ ''                ''\<close>

text \<open>The template, with its fallback: the pair is \<open>(html_content, text_content)\<close>.\<close>

definition render_bodies ::
  "env \<Rightarrow> request \<Rightarrow> (string \<rightharpoonup> string) \<Rightarrow> email_context \<Rightarrow> (string \<times> string) \<times> log_entry list" where
  "render_bodies env req email_fields email_context =
     (case render_to_string env email_context of
        Inr html_content \<Rightarrow>
          ((html_content, strip_tags env (get_default email_fields ''body_content'' '''')), [])
      | Inl template_error \<Rightarrow>
          ((fallback_html req email_fields, get_default email_fields ''body_content'' ''''),
           [Log WARNING (''Email template not found, using plain text: '' @ template_error) False]))"

definition none_if_empty :: "'a list \<Rightarrow> 'a list option" where
  "none_if_empty xs = (if xs \<noteq> [] then Some xs else None)"

text \<open>\<open>EmailMultiAlternatives(...)\<close> followed by \<open>attach_alternative(html_content, "text/html")\<close>.\<close>

definition compose_message ::
  "env \<Rightarrow> (string \<rightharpoonup> string) \<Rightarrow> string \<Rightarrow> string \<Rightarrow> email_message" where
  "compose_message env email_fields html_content text_content =
     (let recipient_email = get_default email_fields ''recipient_email'' '''';
          subject = get_default email_fields ''subject'' '''';
          sender_email = get_default email_fields ''sender_email'' (DEFAULT_FROM_EMAIL env);
          cc_list = parse_address_list (get_default email_fields ''cc_emails'' '''');
          bcc_list = parse_address_list (get_default email_fields ''bcc_emails'' '''')
      in \<lparr>msg_subject = subject,
          msg_body = text_content,
          msg_from_email = sender_email,
          msg_to = [recipient_email],
          msg_cc = none_if_empty cc_list,
          msg_bcc = none_if_empty bcc_list,
          msg_reply_to = (if sender_email \<noteq> DEFAULT_FROM_EMAIL env then Some [sender_email] else None),
          msg_alternatives = [(html_content, ''text/html'')],
          msg_attachments = []\<rparr>)"

text \<open>\<open>DocumentMetadata.objects.filter(entry=email_entry, is_deleted=False)\<close>\<close>

definition attachments_of :: "database \<Rightarrow> nat \<Rightarrow> document_metadata list" where
  "attachments_of db email_id =
     filter (\<lambda>d. doc_entry d = email_id \<and> \<not> is_deleted d) (documents db)"

text \<open>
  The attachment loop. The state is the message, \<open>attachment_errors\<close> and the log; a
  failed download adds its text to both lists and the loop goes on.
\<close>

fun attach_files ::
  "env \<Rightarrow> document_metadata list \<Rightarrow> email_message \<times> string list \<times> log_entry list \<Rightarrow>
   email_message \<times> string list \<times> log_entry list" where
  "attach_files env [] st = st"
| "attach_files env (attachment # rest) (email_message, attachment_errors, lg) =
     (case s3_get_object env (s3_key attachment) of
        S3_Body file_content \<Rightarrow>
          (let mime_type = (case guess_type env (filename attachment) of
                              None \<Rightarrow> ''application/octet-stream''
                            | Some t \<Rightarrow> if t \<noteq> [] then t else ''application/octet-stream'')
           in attach_files env rest
                (email_message\<lparr>msg_attachments :=
                   msg_attachments email_message @ [(filename attachment, file_content, mime_type)]\<rparr>,
                 attachment_errors, lg))
      | S3_ClientError s3_error \<Rightarrow>
          (let error_detail = ''S3 error for '' @ filename attachment @ '': '' @ s3_error
           in attach_files env rest
                (email_message, attachment_errors @ [error_detail], lg @ [Log ERROR error_detail False]))
      | S3_Exception attach_error \<Rightarrow>
          (let error_detail = ''Failed to attach '' @ filename attachment @ '': '' @ attach_error
           in attach_files env rest
                (email_message, attachment_errors @ [error_detail], lg @ [Log ERROR error_detail False])))"

text \<open>
  Lines 80 to 210: everything between the status check and the call of the transport.
  \<open>Inl\<close> is an exception that reaches \<open>except Exception as email_prep_error\<close>.
\<close>

definition prepare_email ::
  "env \<Rightarrow> database \<Rightarrow> request \<Rightarrow> nat \<Rightarrow> (string \<rightharpoonup> string) \<Rightarrow>
   string + (email_message \<times> string list \<times> log_entry list)" where
  "prepare_email env db req email_id email_fields =
     (case lookup_purge_info env db email_fields of
        Inl e \<Rightarrow> Inl e
      | Inr purge_info \<Rightarrow>
          (let email_context = build_email_context env req email_fields purge_info;
               ((html_content, text_content), lg) = render_bodies env req email_fields email_context;
               email_message = compose_message env email_fields html_content text_content
           in Inr (attach_files env (attachments_of db email_id) (email_message, [], lg))))"

subsection \<open>Recording the send\<close>

text \<open>\<open>{field.key: field for field in email_entry.fields.all()}\<close>: the row a key stands for.\<close>

definition existing_fields :: "(string \<times> string) list \<Rightarrow> (string \<rightharpoonup> nat)" where
  "existing_fields rows = map_of (rev (zip (map fst rows) [0..<length rows]))"

text \<open>
  One of the three \<open>if key in existing_fields\<close> blocks: the row is queued for
  \<open>bulk_update\<close> with its new value, or a new row is queued for \<open>bulk_create\<close>.
\<close>

definition plan_field ::
  "(string \<rightharpoonup> nat) \<Rightarrow> string \<Rightarrow> string \<Rightarrow> (nat \<times> string) list \<times> (string \<times> string) list \<Rightarrow>
   (nat \<times> string) list \<times> (string \<times> string) list" where
  "plan_field existing k v plan =
     (case plan of (fields_to_update_bulk, fields_to_create) \<Rightarrow>
        (case existing k of
           Some i \<Rightarrow> (fields_to_update_bulk @ [(i, v)], fields_to_create)
         | None \<Rightarrow> (fields_to_update_bulk, fields_to_create @ [(k, v)])))"

definition plan_updates ::
  "env \<Rightarrow> request \<Rightarrow> (string \<times> string) list \<Rightarrow> (nat \<times> string) list \<times> (string \<times> string) list" where
  "plan_updates env req rows =
     (let existing = existing_fields rows;
          sent_date_value = isoformat env (now env 1)
      in plan_field existing ''sent_by'' (username (req_user req))
           (plan_field existing ''sent_date'' sent_date_value
              (plan_field existing ''status'' ''Sent'' ([], []))))"

definition map_entry :: "nat \<Rightarrow> (entry \<Rightarrow> entry) \<Rightarrow> database \<Rightarrow> database" where
  "map_entry entry_id f db =
     (case entries db entry_id of
        None \<Rightarrow> db
      | Some e \<Rightarrow> db\<lparr>entries := (entries db)(entry_id \<mapsto> f e)\<rparr>)"

definition bulk_create :: "nat \<Rightarrow> (string \<times> string) list \<Rightarrow> database \<Rightarrow> database" where
  "bulk_create entry_id new_rows db =
     map_entry entry_id (\<lambda>e. e\<lparr>entry_fields := entry_fields e @ new_rows\<rparr>) db"

definition set_value :: "(string \<times> string) list \<Rightarrow> nat \<times> string \<Rightarrow> (string \<times> string) list" where
  "set_value rows u = (case u of (i, v) \<Rightarrow> if i < length rows then rows[i := (fst (rows ! i), v)] else rows)"

definition bulk_update :: "nat \<Rightarrow> (nat \<times> string) list \<Rightarrow> database \<Rightarrow> database" where
  "bulk_update entry_id updates db =
     map_entry entry_id (\<lambda>e. e\<lparr>entry_fields := foldl set_value (entry_fields e) updates\<rparr>) db"

definition save_modified_at :: "nat \<Rightarrow> timestamp \<Rightarrow> database \<Rightarrow> database" where
  "save_modified_at entry_id t db = map_entry entry_id (\<lambda>e. e\<lparr>modified_at := t\<rparr>) db"

text \<open>
  A write either raises, leaving the store as it found it, or is applied. The body of
  the \<open>with transaction.atomic()\<close> block runs its writes in order and stops at the first
  one that raises; it returns the store as it stands at that point.
\<close>

definition write_op ::
  "env \<Rightarrow> db_op \<Rightarrow> (database \<Rightarrow> database) \<Rightarrow> database \<Rightarrow> string option \<times> database" where
  "write_op env op f db =
     (case db_write_error env op of Some e \<Rightarrow> (Some e, db) | None \<Rightarrow> (None, f db))"

definition transaction_body ::
  "env \<Rightarrow> nat \<Rightarrow> (nat \<times> string) list \<times> (string \<times> string) list \<Rightarrow> database \<Rightarrow>
   string option \<times> database" where
  "transaction_body env email_id plan db =
     (case plan of (fields_to_update_bulk, fields_to_create) \<Rightarrow>
        (case (if fields_to_create \<noteq> []
               then write_op env BulkCreate (bulk_create email_id fields_to_create) db
               else (None, db)) of
           (Some e, db1) \<Rightarrow> (Some e, db1)
         | (None, db1) \<Rightarrow>
             (case (if fields_to_update_bulk \<noteq> []
                    then write_op env BulkUpdate (bulk_update email_id fields_to_update_bulk) db1
                    else (None, db1)) of
                (Some e, db2) \<Rightarrow> (Some e, db2)
              | (None, db2) \<Rightarrow>
                  write_op env SaveEntry (save_modified_at email_id (now env 2)) db2)))"

text \<open>\<open>transaction.atomic\<close>: an exception inside the block restores the store and goes on up.\<close>

definition atomic ::
  "(database \<Rightarrow> string option \<times> database) \<Rightarrow> database \<Rightarrow> string option \<times> database" where
  "atomic body db = (case body db of (Some e, _) \<Rightarrow> (Some e, db) | (None, db') \<Rightarrow> (None, db'))"

definition update_status ::
  "env \<Rightarrow> request \<Rightarrow> nat \<Rightarrow> entry \<Rightarrow> database \<Rightarrow> string option \<times> database" where
  "update_status env req email_id email_entry db =
     atomic (transaction_body env email_id (plan_updates env req (entry_fields email_entry))) db"

subsection \<open>The success response\<close>

definition warning_msg :: "string list \<Rightarrow> string" where
  "warning_msg attachment_errors =
     ''Email sent, but some attachments failed: '' @ join ''; '' (take 3 attachment_errors)
     @ (if length attachment_errors > 3
        then '' and '' @ str_nat (length attachment_errors - 3) @ '' more...''
        else [])"

definition success_msg :: "(string \<rightharpoonup> string) \<Rightarrow> string" where
  "success_msg email_fields =
     ''Email '' @ [CHR 0x27] @ get_default email_fields ''subject'' '''' @ [CHR 0x27]
     @ '' has been sent successfully to '' @ get_default email_fields ''recipient_email'' ''''
     @ ''.''"

definition success_exit ::
  "env \<Rightarrow> request \<Rightarrow> (string \<rightharpoonup> string) \<Rightarrow> string list \<Rightarrow> database \<Rightarrow> log_entry list \<Rightarrow>
   email_message list \<Rightarrow> outcome" where
  "success_exit env req email_fields attachment_errors db lg out =
     (if attachment_errors \<noteq> []
      then
        (let lg' = lg @ [Log WARNING (warning_msg attachment_errors) False]
         in if wants_json req
            then \<lparr>response = JsonResponse
                     [(''success'', JBool True),
                      (''message'', JStr (success_msg email_fields)),
                      (''warning'', JStr (warning_msg attachment_errors)),
                      (''status'', JStr ''Sent''),
                      (''sent_date'', JStr (isoformat env (now env 3)))],
                  db_after = db, flash = [], logged = lg', outbox = out\<rparr>
            else \<lparr>response = redirect_back email_fields, db_after = db,
                  flash = [(SUCCESS, success_msg email_fields),
                           (WARNING, warning_msg attachment_errors)],
                  logged = lg', outbox = out\<rparr>)
      else
        (if wants_json req
         then \<lparr>response = JsonResponse
                  [(''success'', JBool True),
                   (''message'', JStr (success_msg email_fields)),
                   (''status'', JStr ''Sent''),
                   (''sent_date'', JStr (isoformat env (now env 3)))],
               db_after = db, flash = [], logged = lg, outbox = out\<rparr>
         else \<lparr>response = redirect_back email_fields, db_after = db,
               flash = [(SUCCESS, success_msg email_fields)], logged = lg, outbox = out\<rparr>))"

subsection \<open>\<open>send_correspondence_email\<close>\<close>

definition not_found_msg :: "nat \<Rightarrow> string" where
  "not_found_msg email_id = ''Email correspondence with ID '' @ str_nat email_id @ '' not found.''"

definition send_correspondence_email :: "env \<Rightarrow> database \<Rightarrow> request \<Rightarrow> nat \<Rightarrow> outcome" where
  "send_correspondence_email env db req email_id =
     (case db_read_error env of
        Some e \<Rightarrow> unexpected_exit req e db [] []
      | None \<Rightarrow>
     (case get_entry db email_id [''purge/internal/email''] of
        Inl DoesNotExist \<Rightarrow> outer_exit req (not_found_msg email_id) db [] []
      | Inl (Unexpected e) \<Rightarrow> unexpected_exit req e db [] []
      | Inr email_entry \<Rightarrow>
     (let email_fields = dict_of (entry_fields email_entry);
          missing = missing_fields email_fields
      in if missing \<noteq> []
         then error_exit req email_fields ERROR
                (''Cannot send email. Missing required fields: '' @ join '', '' missing) db [] []
         else
     (let current_status = get_default email_fields ''status'' ''''
      in if current_status \<noteq> ''Draft''
         then error_exit req email_fields WARNING
                (''Email cannot be sent. Current status: '' @ current_status
                 @ ''. Only Draft emails can be sent.'') db [] []
         else
     (case prepare_email env db req email_id email_fields of
        Inl email_prep_error \<Rightarrow>
          (let error_msg = ''Error preparing email: '' @ email_prep_error
           in error_exit req email_fields ERROR error_msg db [Log ERROR error_msg False] [])
      | Inr (email_message, attachment_errors, lg) \<Rightarrow>
     (case send env email_message of
        Some send_error \<Rightarrow>
          error_exit req email_fields ERROR (''Failed to send email: '' @ send_error) db
            (lg @ [Log ERROR (''Failed to send email: '' @ send_error) False]) [email_message]
      | None \<Rightarrow>
     (case update_status env req email_id email_entry db of
        (Some e, db') \<Rightarrow> unexpected_exit req e db' lg [email_message]
      | (None, db') \<Rightarrow>
          success_exit env req email_fields attachment_errors db' lg [email_message])))))))"

section \<open>Vocabulary of the statements\<close>

text \<open>
  The request has passed the checks of lines 28 to 76: the record was read, it is a
  correspondence email, no required field is missing and its status is \<open>Draft\<close>.
\<close>

definition draft_ready :: "env \<Rightarrow> database \<Rightarrow> nat \<Rightarrow> entry \<Rightarrow> bool" where
  "draft_ready env db email_id e =
     (db_read_error env = None
      \<and> get_entry db email_id [''purge/internal/email''] = Inr e
      \<and> missing_fields (dict_of (entry_fields e)) = []
      \<and> get_default (dict_of (entry_fields e)) ''status'' '''' = ''Draft'')"

text \<open>The rows of the record once both bulk operations of a plan have run.\<close>

definition apply_plan ::
  "(string \<times> string) list \<Rightarrow> (nat \<times> string) list \<times> (string \<times> string) list \<Rightarrow>
   (string \<times> string) list" where
  "apply_plan rows plan = foldl set_value (rows @ snd plan) (fst plan)"

text \<open>
  The invariant of the three planning steps: every queued update names a row that is
  there, and the keys of the queued new rows are among \<open>ks\<close>.
\<close>

definition plan_ok ::
  "(string \<times> string) list \<Rightarrow> (nat \<times> string) list \<times> (string \<times> string) list \<Rightarrow>
   string set \<Rightarrow> bool" where
  "plan_ok rows plan ks =
     ((\<forall>u \<in> set (fst plan). fst u < length rows) \<and> fst ` set (snd plan) \<subseteq> ks)"

text \<open>What the loop records for one attachment: the tuple attached, or the text of the failure.\<close>

definition attached :: "env \<Rightarrow> document_metadata \<Rightarrow> (string \<times> string \<times> string) option" where
  "attached env a =
     (case s3_get_object env (s3_key a) of
        S3_Body file_content \<Rightarrow>
          Some (filename a, file_content,
                (case guess_type env (filename a) of
                   None \<Rightarrow> ''application/octet-stream''
                 | Some t \<Rightarrow> if t \<noteq> [] then t else ''application/octet-stream''))
      | _ \<Rightarrow> None)"

definition attachment_failure :: "env \<Rightarrow> document_metadata \<Rightarrow> string option" where
  "attachment_failure env a =
     (case s3_get_object env (s3_key a) of
        S3_Body _ \<Rightarrow> None
      | S3_ClientError s3_error \<Rightarrow> Some (''S3 error for '' @ filename a @ '': '' @ s3_error)
      | S3_Exception attach_error \<Rightarrow>
          Some (''Failed to attach '' @ filename a @ '': '' @ attach_error))"

subsection \<open>A concrete request\<close>

text \<open>
  A draft with its required fields, sent by a JSON caller; every collaborator succeeds.
  The examples below change one thing at a time.
\<close>

definition example_env :: env where
  "example_env =
     \<lparr>DEFAULT_FROM_EMAIL = ''noreply@example.com'',
      db_read_error = None,
      entry_id_of = (\<lambda>s. if s = ''8'' then Inr 8 else Inl (''invalid id: '' @ s)),
      db_write_error = (\<lambda>_. None),
      render_to_string = (\<lambda>c. Inr (''<p>'' @ ctx_body_content c @ ''</p>'')),
      strip_tags = (\<lambda>s. s),
      s3_get_object = (\<lambda>k. if k = ''k1'' then S3_Body ''PDF'' else
                            if k = ''k2'' then S3_ClientError ''NoSuchKey''
                            else S3_Exception ''timeout''),
      guess_type = (\<lambda>f. None),
      send = (\<lambda>m. None),
      now = (\<lambda>k. 100 + k),
      isoformat = (\<lambda>t. ''T'' @ str_nat t),
      strftime_ymd = (\<lambda>t. ''D'' @ str_nat t)\<rparr>"

definition example_request :: request where
  "example_request =
     \<lparr>content_type = Some ''application/json'',
      req_user = \<lparr>full_name = '''', username = ''alice''\<rparr>\<rparr>"

definition example_entry :: entry where
  "example_entry =
     \<lparr>section_key = ''purge/internal/email'',
      entry_fields = [(''recipient_email'', ''bob@example.com''), (''subject'', ''Hi''),
                      (''email_date'', ''2024-01-01''), (''email_type'', ''Notice''),
                      (''status'', ''Draft''), (''body_content'', ''Hello'')],
      modified_at = 0\<rparr>"

definition example_db :: database where
  "example_db = \<lparr>entries = [1 \<mapsto> example_entry], documents = []\<rparr>"

definition example_message :: email_message where
  "example_message =
     \<lparr>msg_subject = ''Hi'', msg_body = ''Hello'', msg_from_email = ''noreply@example.com'',
      msg_to = [''bob@example.com''], msg_cc = None, msg_bcc = None, msg_reply_to = None,
      msg_alternatives = [(''<p>Hello</p>'', ''text/html'')], msg_attachments = []\<rparr>"

definition refusing_env :: env where
  "refusing_env = example_env\<lparr>send := (\<lambda>_. Some ''Connection refused'')\<rparr>"

definition db_with :: "entry \<Rightarrow> database" where
  "db_with e = \<lparr>entries = [1 \<mapsto> e], documents = []\<rparr>"

definition replying_entry :: entry where
  "replying_entry =
     example_entry\<lparr>entry_fields := entry_fields example_entry @ [(''sender_email'', ''carol@example.com'')]\<rparr>"

definition incomplete_entry :: entry where
  "incomplete_entry =
     \<lparr>section_key = ''purge/internal/email'',
      entry_fields = [(''recipient_email'', ''bob@example.com''), (''email_date'', ''2024-01-01''),
                      (''status'', ''Draft'')],
      modified_at = 0\<rparr>"

definition blank_entry :: entry where
  "blank_entry =
     \<lparr>section_key = ''purge/internal/email'',
      entry_fields = [(''recipient_email'', ''''), (''subject'', ''Hi''),
                      (''email_date'', ''2024-01-01''), (''email_type'', ''Notice''),
                      (''status'', ''Draft'')],
      modified_at = 0\<rparr>"

definition sent_entry :: entry where
  "sent_entry =
     \<lparr>section_key = ''purge/internal/email'',
      entry_fields = [(''recipient_email'', ''bob@example.com''), (''subject'', ''Hi''),
                      (''email_date'', ''2024-01-01''), (''email_type'', ''Notice''),
                      (''status'', ''Sent'')],
      modified_at = 0\<rparr>"

definition sent_incomplete_entry :: entry where
  "sent_incomplete_entry =
     \<lparr>section_key = ''purge/internal/email'',
      entry_fields = [(''recipient_email'', ''bob@example.com''),
                      (''email_date'', ''2024-01-01''), (''email_type'', ''Notice''),
                      (''status'', ''Sent'')],
      modified_at = 0\<rparr>"

definition orphan_entry :: entry where
  "orphan_entry =
     example_entry\<lparr>entry_fields := entry_fields example_entry @ [(''purge_record_id'', ''8'')]\<rparr>"

definition probe_env :: env where
  "probe_env =
     example_env\<lparr>render_to_string :=
       (\<lambda>c. Inr (case map_of (ctx_purge_info c) ''account'' of
                    None \<Rightarrow> ''no account in the context''
                  | Some account \<Rightarrow> ''account: '' @ account))\<rparr>"

definition purge_entry :: entry where
  "purge_entry =
     \<lparr>section_key = ''purge/internal'',
      entry_fields = [(''provider'', ''Acme''), (''status'', ''Open'')],
      modified_at = 0\<rparr>"

definition linked_db :: database where
  "linked_db = \<lparr>entries = [1 \<mapsto> orphan_entry, 8 \<mapsto> purge_entry], documents = []\<rparr>"

definition broken_env :: env where
  "broken_env = example_env\<lparr>db_read_error := Some ''connection to db-primary:5432 refused''\<rparr>"

definition failing_write_env :: env where
  "failing_write_env =
     example_env\<lparr>db_write_error := (\<lambda>op. if op = SaveEntry then Some ''deadlock detected'' else None)\<rparr>"

definition malformed_entry :: entry where
  "malformed_entry =
     example_entry\<lparr>entry_fields := entry_fields example_entry @ [(''purge_record_id'', ''abc'')]\<rparr>"


definition attachments_db :: database where
  "attachments_db =
     \<lparr>entries = [1 \<mapsto> example_entry],
      documents =
        [\<lparr>doc_entry = 1, filename = ''f1.pdf'', s3_key = ''k1'', is_deleted = False\<rparr>,
         \<lparr>doc_entry = 1, filename = ''f2.pdf'', s3_key = ''k2'', is_deleted = False\<rparr>,
         \<lparr>doc_entry = 1, filename = ''f3.pdf'', s3_key = ''k3'', is_deleted = True\<rparr>,
         \<lparr>doc_entry = 1, filename = ''f4.pdf'', s3_key = ''k4'', is_deleted = False\<rparr>,
         \<lparr>doc_entry = 2, filename = ''other.pdf'', s3_key = ''k1'', is_deleted = False\<rparr>,
         \<lparr>doc_entry = 1, filename = ''f5.pdf'', s3_key = ''k2'', is_deleted = False\<rparr>,
         \<lparr>doc_entry = 1, filename = ''f6.pdf'', s3_key = ''k4'', is_deleted = False\<rparr>,
         \<lparr>doc_entry = 1, filename = ''f7.pdf'', s3_key = ''k4'', is_deleted = False\<rparr>]\<rparr>"

section \<open>Lemmas\<close>

subsection \<open>Rows, keys and the planned writes\<close>

lemma existing_fields_snoc:
  "existing_fields (rows @ [r]) = (existing_fields rows)(fst r \<mapsto> length rows)"
  by (rule ext) (simp add: existing_fields_def)

lemma dict_of_snoc: "dict_of (rows @ [r]) = (dict_of rows)(fst r \<mapsto> snd r)"
  by (rule ext) (simp add: dict_of_def)

lemma existing_fields_None: "(existing_fields rows k = None) = (k \<notin> fst ` set rows)"
  by (induction rows rule: rev_induct) (auto simp: existing_fields_snoc existing_fields_def)

lemma existing_fields_bound: "existing_fields rows k = Some i \<Longrightarrow> i < length rows \<and> fst (rows ! i) = k"
  by (induction rows rule: rev_induct)
     (auto simp: existing_fields_snoc existing_fields_def nth_append split: if_splits)

lemma existing_fields_keys: "map fst rows = map fst rows' \<Longrightarrow> existing_fields rows = existing_fields rows'"
  by (metis existing_fields_def length_map)

lemma existing_fields_append:
  "k \<notin> fst ` set cs \<Longrightarrow> existing_fields (rows @ cs) k = existing_fields rows k"
  by (induction cs rule: rev_induct) (auto simp: existing_fields_snoc simp flip: append_assoc)

lemma dict_of_append: "dict_of (rows @ cs) = dict_of rows ++ dict_of cs"
  by (simp add: dict_of_def)

lemma map_fst_set_value: "map fst (set_value rows u) = map fst rows"
  by (cases u) (simp add: set_value_def map_update list_update_same_conv)

lemma existing_fields_set_value: "existing_fields (set_value rows u) = existing_fields rows"
  by (rule existing_fields_keys) (rule map_fst_set_value)

lemma dict_of_set_value:
  "existing_fields rows k = Some i \<Longrightarrow> dict_of (set_value rows (i, v)) = (dict_of rows)(k \<mapsto> v)"
proof (induction rows rule: rev_induct)
  case Nil
  then show ?case by (simp add: existing_fields_def)
next
  case (snoc r rows)
  show ?case
  proof (cases "k = fst r")
    case True
    with snoc.prems have "i = length rows" by (simp add: existing_fields_snoc)
    with True show ?thesis by (auto simp: set_value_def dict_of_snoc fun_eq_iff)
  next
    case False
    with snoc.prems have ex: "existing_fields rows k = Some i" by (simp add: existing_fields_snoc)
    then have "i < length rows" by (simp add: existing_fields_bound)
    then have "set_value (rows @ [r]) (i, v) = set_value rows (i, v) @ [r]"
      by (simp add: set_value_def list_update_append nth_append)
    with False snoc.IH [OF ex] show ?thesis by (auto simp: dict_of_snoc fun_eq_iff)
  qed
qed



lemma foldl_set_value_keys: "map fst (foldl set_value rows ups) = map fst rows"
  by (induction ups arbitrary: rows) (simp_all add: map_fst_set_value)

lemma foldl_set_value_snoc:
  "\<forall>u \<in> set ups. fst u < length rows \<Longrightarrow>
   foldl set_value (rows @ [r]) ups = foldl set_value rows ups @ [r]"
proof (induction ups arbitrary: rows)
  case Nil
  then show ?case by simp
next
  case (Cons u ups)
  obtain i v where u: "u = (i, v)" by (cases u)
  with Cons.prems have i: "i < length rows" by simp
  then have step: "set_value (rows @ [r]) u = set_value rows u @ [r]"
    by (simp add: u set_value_def list_update_append nth_append)
  have len: "length (set_value rows u) = length rows"
    by (simp add: u set_value_def)
  from Cons.prems have "\<forall>w \<in> set ups. fst w < length (set_value rows u)"
    by (simp add: len)
  from Cons.IH [OF this] step show ?case by simp
qed

lemma plan_field_ok:
  "plan_ok rows plan ks \<Longrightarrow> plan_ok rows (plan_field (existing_fields rows) k v plan) (insert k ks)"
  by (cases plan; cases "existing_fields rows k")
     (auto simp: plan_ok_def plan_field_def existing_fields_bound)

lemma plan_field_dict:
  assumes ok: "plan_ok rows plan ks" and k: "k \<notin> ks"
  shows "dict_of (apply_plan rows (plan_field (existing_fields rows) k v plan)) =
         (dict_of (apply_plan rows plan))(k \<mapsto> v)"
proof -
  obtain ups crs where plan: "plan = (ups, crs)" by (cases plan)
  from ok plan have idx: "\<forall>u \<in> set ups. fst u < length (rows @ crs)"
    by (auto simp: plan_ok_def)
  from ok plan k have fresh: "k \<notin> fst ` set crs"
    by (auto simp: plan_ok_def)
  show ?thesis
  proof (cases "existing_fields rows k")
    case None
    then have "apply_plan rows (plan_field (existing_fields rows) k v plan) =
               foldl set_value ((rows @ crs) @ [(k, v)]) ups"
      by (simp add: plan plan_field_def apply_plan_def)
    also have "\<dots> = foldl set_value (rows @ crs) ups @ [(k, v)]"
      by (rule foldl_set_value_snoc [OF idx])
    finally show ?thesis
      by (simp add: dict_of_snoc apply_plan_def plan)
  next
    case (Some i)
    then have eq: "apply_plan rows (plan_field (existing_fields rows) k v plan) =
                   set_value (apply_plan rows plan) (i, v)"
      by (simp add: plan plan_field_def apply_plan_def)
    have "existing_fields (apply_plan rows plan) = existing_fields (rows @ crs)"
      by (rule existing_fields_keys) (simp add: apply_plan_def plan foldl_set_value_keys)
    with fresh Some have "existing_fields (apply_plan rows plan) k = Some i"
      by (simp add: existing_fields_append)
    then show ?thesis
      by (simp add: eq dict_of_set_value)
  qed
qed

lemma plan_field_keys:
  assumes ok: "plan_ok rows plan ks"
  shows "map fst (apply_plan rows (plan_field (existing_fields rows) k v plan)) =
         map fst (apply_plan rows plan) @ (if k \<in> fst ` set rows then [] else [k])"
proof -
  obtain ups crs where plan: "plan = (ups, crs)" by (cases plan)
  show ?thesis
  proof (cases "existing_fields rows k")
    case None
    then have "k \<notin> fst ` set rows" by (simp add: existing_fields_None)
    with None show ?thesis
      by (simp add: plan plan_field_def apply_plan_def foldl_set_value_keys)
  next
    case (Some i)
    then have "k \<in> fst ` set rows"
      using existing_fields_None [of rows k] by simp
    with Some show ?thesis
      by (simp add: plan plan_field_def apply_plan_def foldl_set_value_keys map_fst_set_value)
  qed
qed

lemma plan_updates_dict:
  "dict_of (apply_plan rows (plan_updates env req rows)) =
     (dict_of rows)(''status'' \<mapsto> ''Sent'', ''sent_date'' \<mapsto> isoformat env (now env 1),
                    ''sent_by'' \<mapsto> username (req_user req))"
proof -
  let ?ex = "existing_fields rows"
  let ?p0 = "([], []) :: (nat \<times> string) list \<times> (string \<times> string) list"
  let ?p1 = "plan_field ?ex ''status'' ''Sent'' ?p0"
  let ?p2 = "plan_field ?ex ''sent_date'' (isoformat env (now env 1)) ?p1"
  have ok0: "plan_ok rows ?p0 {}" by (simp add: plan_ok_def)
  have ok1: "plan_ok rows ?p1 {''status''}" using plan_field_ok [OF ok0] .
  have ok2: "plan_ok rows ?p2 {''sent_date'', ''status''}" using plan_field_ok [OF ok1] .
  have d0: "dict_of (apply_plan rows ?p0) = dict_of rows" by (simp add: apply_plan_def)
  have d1: "dict_of (apply_plan rows ?p1) = (dict_of rows)(''status'' \<mapsto> ''Sent'')"
    using plan_field_dict [OF ok0, of "''status''" "''Sent''"] d0 by simp
  have d2: "dict_of (apply_plan rows ?p2) =
            (dict_of rows)(''status'' \<mapsto> ''Sent'', ''sent_date'' \<mapsto> isoformat env (now env 1))"
    using plan_field_dict [OF ok1, of "''sent_date''" "isoformat env (now env 1)"] d1 by simp
  have "dict_of (apply_plan rows (plan_field ?ex ''sent_by'' (username (req_user req)) ?p2)) =
        (dict_of (apply_plan rows ?p2))(''sent_by'' \<mapsto> username (req_user req))"
    by (rule plan_field_dict [OF ok2]) simp
  with d2 show ?thesis by (simp add: plan_updates_def Let_def)
qed

lemma plan_updates_keys:
  "map fst (apply_plan rows (plan_updates env req rows)) =
     map fst rows @ [k \<leftarrow> [''status'', ''sent_date'', ''sent_by'']. k \<notin> fst ` set rows]"
proof -
  let ?ex = "existing_fields rows"
  let ?p0 = "([], []) :: (nat \<times> string) list \<times> (string \<times> string) list"
  let ?p1 = "plan_field ?ex ''status'' ''Sent'' ?p0"
  let ?p2 = "plan_field ?ex ''sent_date'' (isoformat env (now env 1)) ?p1"
  have ok0: "plan_ok rows ?p0 {}" by (simp add: plan_ok_def)
  have ok1: "plan_ok rows ?p1 {''status''}" using plan_field_ok [OF ok0] .
  have ok2: "plan_ok rows ?p2 {''sent_date'', ''status''}" using plan_field_ok [OF ok1] .
  have k0: "map fst (apply_plan rows ?p0) = map fst rows" by (simp add: apply_plan_def)
  note k1 = plan_field_keys [OF ok0, of "''status''" "''Sent''"]
  note k2 = plan_field_keys [OF ok1, of "''sent_date''" "isoformat env (now env 1)"]
  note k3 = plan_field_keys [OF ok2, of "''sent_by''" "username (req_user req)"]
  show ?thesis
    unfolding plan_updates_def Let_def k3 k2 k1 k0 by simp
qed

subsection \<open>The exits of the handler\<close>

lemma error_exit_sel [simp]:
  "db_after (error_exit req d lvl msg db lg out) = db"
  "outbox (error_exit req d lvl msg db lg out) = out"
  "logged (error_exit req d lvl msg db lg out) = lg"
  "response (error_exit req d lvl msg db lg out) =
     (if wants_json req then json_error msg else redirect_back d)"
  "flash (error_exit req d lvl msg db lg out) = (if wants_json req then [] else [(lvl, msg)])"
  by (simp_all add: error_exit_def)

lemma outer_exit_sel [simp]:
  "db_after (outer_exit req msg db lg out) = db"
  "outbox (outer_exit req msg db lg out) = out"
  "logged (outer_exit req msg db lg out) = lg"
  "response (outer_exit req msg db lg out) =
     (if wants_json req then json_error msg
      else Redirect ''bluebird:view_internal_purge_records'' None)"
  "flash (outer_exit req msg db lg out) = (if wants_json req then [] else [(ERROR, msg)])"
  by (simp_all add: outer_exit_def)

lemma unexpected_exit_sel [simp]:
  "db_after (unexpected_exit req x db lg out) = db"
  "outbox (unexpected_exit req x db lg out) = out"
  "logged (unexpected_exit req x db lg out) =
     lg @ [Log ERROR (''Unexpected error in send_correspondence_email: '' @ x) True]"
  "response (unexpected_exit req x db lg out) =
     (if wants_json req then json_error (''Error sending email: '' @ x)
      else Redirect ''bluebird:view_internal_purge_records'' None)"
  "flash (unexpected_exit req x db lg out) =
     (if wants_json req then [] else [(ERROR, ''Error sending email: '' @ x)])"
  by (simp_all add: unexpected_exit_def)

lemma success_exit_sel [simp]:
  "db_after (success_exit env req d errs db lg out) = db"
  "outbox (success_exit env req d errs db lg out) = out"
  by (simp_all add: success_exit_def Let_def)

lemma get_entry_Inr:
  "get_entry db i ks = Inr e \<Longrightarrow> entries db i = Some e \<and> section_key e \<in> set ks"
  by (auto simp: get_entry_def split: option.splits if_splits)

lemma get_entry_Inl: "get_entry db i ks = Inl x \<Longrightarrow> x = DoesNotExist"
  by (auto simp: get_entry_def split: option.splits if_splits)

lemma handler_read_error:
  "db_read_error env = Some x \<Longrightarrow>
   send_correspondence_email env db req email_id = unexpected_exit req x db [] []"
  by (simp add: send_correspondence_email_def)

lemma handler_not_found:
  "db_read_error env = None \<Longrightarrow> get_entry db email_id [''purge/internal/email''] = Inl x \<Longrightarrow>
   send_correspondence_email env db req email_id = outer_exit req (not_found_msg email_id) db [] []"
  by (frule get_entry_Inl) (simp add: send_correspondence_email_def)

lemma handler_missing:
  "db_read_error env = None \<Longrightarrow> get_entry db email_id [''purge/internal/email''] = Inr e \<Longrightarrow>
   missing_fields (dict_of (entry_fields e)) \<noteq> [] \<Longrightarrow>
   send_correspondence_email env db req email_id =
     error_exit req (dict_of (entry_fields e)) ERROR
       (''Cannot send email. Missing required fields: ''
        @ join '', '' (missing_fields (dict_of (entry_fields e)))) db [] []"
  by (simp add: send_correspondence_email_def Let_def)

lemma handler_not_draft:
  "db_read_error env = None \<Longrightarrow> get_entry db email_id [''purge/internal/email''] = Inr e \<Longrightarrow>
   missing_fields (dict_of (entry_fields e)) = [] \<Longrightarrow>
   get_default (dict_of (entry_fields e)) ''status'' '''' \<noteq> ''Draft'' \<Longrightarrow>
   send_correspondence_email env db req email_id =
     error_exit req (dict_of (entry_fields e)) WARNING
       (''Email cannot be sent. Current status: ''
        @ get_default (dict_of (entry_fields e)) ''status'' ''''
        @ ''. Only Draft emails can be sent.'') db [] []"
  by (simp add: send_correspondence_email_def Let_def)

lemma handler_prep_error:
  "draft_ready env db email_id e \<Longrightarrow>
   prepare_email env db req email_id (dict_of (entry_fields e)) = Inl x \<Longrightarrow>
   send_correspondence_email env db req email_id =
     error_exit req (dict_of (entry_fields e)) ERROR (''Error preparing email: '' @ x) db
       [Log ERROR (''Error preparing email: '' @ x) False] []"
  by (simp add: send_correspondence_email_def Let_def draft_ready_def)

lemma handler_send_failed:
  "draft_ready env db email_id e \<Longrightarrow>
   prepare_email env db req email_id (dict_of (entry_fields e)) = Inr (m, errs, lg) \<Longrightarrow>
   send env m = Some x \<Longrightarrow>
   send_correspondence_email env db req email_id =
     error_exit req (dict_of (entry_fields e)) ERROR (''Failed to send email: '' @ x) db
       (lg @ [Log ERROR (''Failed to send email: '' @ x) False]) [m]"
  by (simp add: send_correspondence_email_def Let_def draft_ready_def)

lemma handler_sent:
  "draft_ready env db email_id e \<Longrightarrow>
   prepare_email env db req email_id (dict_of (entry_fields e)) = Inr (m, errs, lg) \<Longrightarrow>
   send env m = None \<Longrightarrow>
   send_correspondence_email env db req email_id =
     (case update_status env req email_id e db of
        (Some x, db') \<Rightarrow> unexpected_exit req x db' lg [m]
      | (None, db') \<Rightarrow> success_exit env req (dict_of (entry_fields e)) errs db' lg [m])"
  by (simp add: send_correspondence_email_def Let_def draft_ready_def)

lemma map_entry_Some:
  "entries db i = Some e \<Longrightarrow> map_entry i f db = db\<lparr>entries := (entries db)(i \<mapsto> f e)\<rparr>"
  by (simp add: map_entry_def)

lemma update_status_failed:
  "update_status env req email_id e db = (Some x, db') \<Longrightarrow> db' = db"
  by (auto simp: update_status_def atomic_def split: prod.splits option.splits)

lemma transaction_body_done:
  assumes e: "entries db email_id = Some e"
    and t: "transaction_body env email_id plan db = (None, db')"
  shows "db' = db\<lparr>entries := (entries db)(email_id \<mapsto>
           e\<lparr>entry_fields := apply_plan (entry_fields e) plan, modified_at := now env 2\<rparr>)\<rparr>"
proof -
  obtain ups crs where plan: "plan = (ups, crs)" by (cases plan)
  define e1 where "e1 = e\<lparr>entry_fields := entry_fields e @ crs\<rparr>"
  define db1 where "db1 = db\<lparr>entries := (entries db)(email_id \<mapsto> e1)\<rparr>"
  define e2 where "e2 = e1\<lparr>entry_fields := foldl set_value (entry_fields e1) ups\<rparr>"
  define db2 where "db2 = db1\<lparr>entries := (entries db1)(email_id \<mapsto> e2)\<rparr>"
  have id1: "crs = [] \<Longrightarrow> db1 = db"
    using e by (simp add: db1_def e1_def map_upd_triv)
  have c: "bulk_create email_id crs db = db1"
    using e by (simp add: bulk_create_def map_entry_Some db1_def e1_def)
  have e1: "entries db1 email_id = Some e1" by (simp add: db1_def)
  have id2: "ups = [] \<Longrightarrow> db2 = db1"
    using e1 by (simp add: db2_def e2_def map_upd_triv)
  have u: "bulk_update email_id ups db1 = db2"
    using e1 by (simp add: bulk_update_def map_entry_Some db2_def e2_def)
  have e2: "entries db2 email_id = Some e2" by (simp add: db2_def)
  have s: "save_modified_at email_id (now env 2) db2 =
           db2\<lparr>entries := (entries db2)(email_id \<mapsto> e2\<lparr>modified_at := now env 2\<rparr>)\<rparr>"
    using e2 by (simp add: save_modified_at_def map_entry_Some)
  have step1: "(if crs \<noteq> [] then write_op env BulkCreate (bulk_create email_id crs) db else (None, db))
               = (None, db1) \<or>
               (\<exists>x d. (if crs \<noteq> [] then write_op env BulkCreate (bulk_create email_id crs) db else (None, db))
               = (Some x, d))"
    using c id1 by (auto simp: write_op_def split: option.splits)
  have step2: "(if ups \<noteq> [] then write_op env BulkUpdate (bulk_update email_id ups) db1 else (None, db1))
               = (None, db2) \<or>
               (\<exists>x d. (if ups \<noteq> [] then write_op env BulkUpdate (bulk_update email_id ups) db1 else (None, db1))
               = (Some x, d))"
    using u id2 by (auto simp: write_op_def split: option.splits)
  from t step1 have t1: "(if crs \<noteq> [] then write_op env BulkCreate (bulk_create email_id crs) db else (None, db))
               = (None, db1)"
    unfolding transaction_body_def plan by (auto split: prod.splits option.splits)
  with t have t': "(case (if ups \<noteq> [] then write_op env BulkUpdate (bulk_update email_id ups) db1 else (None, db1)) of
                (Some e, db2) \<Rightarrow> (Some e, db2)
              | (None, db2) \<Rightarrow> write_op env SaveEntry (save_modified_at email_id (now env 2)) db2) = (None, db')"
    unfolding transaction_body_def plan by simp
  with step2 have t2: "(if ups \<noteq> [] then write_op env BulkUpdate (bulk_update email_id ups) db1 else (None, db1))
               = (None, db2)"
    by (auto split: prod.splits option.splits)
  with t' have "write_op env SaveEntry (save_modified_at email_id (now env 2)) db2 = (None, db')"
    by simp
  then have "db' = save_modified_at email_id (now env 2) db2"
    by (auto simp: write_op_def split: option.splits)
  with s have "db' = db2\<lparr>entries := (entries db2)(email_id \<mapsto> e2\<lparr>modified_at := now env 2\<rparr>)\<rparr>"
    by simp
  then show ?thesis
    by (simp add: s db2_def db1_def e2_def e1_def apply_plan_def plan)
qed

lemma update_status_done:
  assumes e: "entries db email_id = Some e"
    and t: "update_status env req email_id e db = (None, db')"
  shows "db' = db\<lparr>entries := (entries db)(email_id \<mapsto>
           e\<lparr>entry_fields := apply_plan (entry_fields e) (plan_updates env req (entry_fields e)),
             modified_at := now env 2\<rparr>)\<rparr>"
proof -
  from t have "transaction_body env email_id (plan_updates env req (entry_fields e)) db = (None, db')"
    by (auto simp: update_status_def atomic_def split: prod.splits option.splits)
  from transaction_body_done [OF e this] show ?thesis .
qed

lemma example_missing: "missing_fields (dict_of (entry_fields example_entry)) = []"
  by (simp add: missing_fields_def required_fields_def dict_of_def example_entry_def truthy_def)

lemma example_ready: "draft_ready example_env example_db 1 example_entry"
  by (simp add: draft_ready_def example_missing)
     (simp add: example_env_def example_db_def get_entry_def example_entry_def dict_of_def get_default_def)

section \<open>The claims\<close>

subsection \<open>C6: parsing \<open>cc_emails\<close> and \<open>bcc_emails\<close>\<close>









subsection \<open>C5: Reply-To and the single recipient\<close>

lemma attach_files_eq:
  "attach_files env as (m, errs, lg) =
     (m\<lparr>msg_attachments := msg_attachments m @ List.map_filter (attached env) as\<rparr>,
      errs @ List.map_filter (attachment_failure env) as,
      lg @ map (\<lambda>d. Log ERROR d False) (List.map_filter (attachment_failure env) as))"
proof (induction as arbitrary: m errs lg)
  case Nil
  then show ?case by (simp add: List.map_filter_simps)
next
  case (Cons a as)
  show ?case
    by (cases "s3_get_object env (s3_key a)")
       (simp_all add: Cons.IH List.map_filter_simps attached_def attachment_failure_def Let_def)
qed

lemma prepare_email_Inl:
  "lookup_purge_info env db d = Inl x \<Longrightarrow> prepare_email env db req email_id d = Inl x"
  by (simp add: prepare_email_def)

lemma prepare_email_Inr:
  assumes "lookup_purge_info env db d = Inr p"
  shows "prepare_email env db req email_id d =
     Inr ((compose_message env d
             (fst (fst (render_bodies env req d (build_email_context env req d p))))
             (snd (fst (render_bodies env req d (build_email_context env req d p)))))
            \<lparr>msg_attachments := List.map_filter (attached env) (attachments_of db email_id)\<rparr>,
          List.map_filter (attachment_failure env) (attachments_of db email_id),
          snd (render_bodies env req d (build_email_context env req d p))
          @ map (\<lambda>d. Log ERROR d False)
              (List.map_filter (attachment_failure env) (attachments_of db email_id)))"
  using assms
  by (simp add: prepare_email_def Let_def attach_files_eq compose_message_def split: prod.splits)

lemma prepare_email_message:
  assumes "prepare_email env db req email_id d = Inr (m, errs, lg)"
  shows "\<exists>html text. m = (compose_message env d html text)
           \<lparr>msg_attachments := List.map_filter (attached env) (attachments_of db email_id)\<rparr>"
proof (cases "lookup_purge_info env db d")
  case (Inl x)
  with assms show ?thesis by (simp add: prepare_email_Inl)
next
  case (Inr p)
  from assms show ?thesis unfolding prepare_email_Inr [OF Inr] by blast
qed

lemma outbox_message:
  assumes "m \<in> set (outbox (send_correspondence_email env db req email_id))"
  shows "\<exists>e errs lg. draft_ready env db email_id e
           \<and> prepare_email env db req email_id (dict_of (entry_fields e)) = Inr (m, errs, lg)"
proof -
  let ?key = "[''purge/internal/email'']"
  consider (read) x where "db_read_error env = Some x"
    | (absent) x where "db_read_error env = None" "get_entry db email_id ?key = Inl x"
    | (missing) e where "db_read_error env = None" "get_entry db email_id ?key = Inr e"
        "missing_fields (dict_of (entry_fields e)) \<noteq> []"
    | (status) e where "db_read_error env = None" "get_entry db email_id ?key = Inr e"
        "missing_fields (dict_of (entry_fields e)) = []"
        "get_default (dict_of (entry_fields e)) ''status'' '''' \<noteq> ''Draft''"
    | (ready) e where "draft_ready env db email_id e"
    unfolding draft_ready_def
    by (cases "db_read_error env"; cases "get_entry db email_id ?key") auto
  then show ?thesis
  proof cases
    case read
    with assms show ?thesis by (simp add: handler_read_error)
  next
    case absent
    with assms show ?thesis by (simp add: handler_not_found)
  next
    case missing
    with assms show ?thesis by (simp add: handler_missing)
  next
    case status
    with assms show ?thesis by (simp add: handler_not_draft)
  next
    case ready
    show ?thesis
    proof (cases "prepare_email env db req email_id (dict_of (entry_fields e))")
      case (Inl x)
      with ready assms show ?thesis by (simp add: handler_prep_error)
    next
      case (Inr r)
      then obtain m' errs lg where
        prep: "prepare_email env db req email_id (dict_of (entry_fields e)) = Inr (m', errs, lg)"
        by (cases r) auto
      have "outbox (send_correspondence_email env db req email_id) = [m']"
      proof (cases "send env m'")
        case (Some x)
        with ready prep show ?thesis by (simp add: handler_send_failed)
      next
        case None
        from handler_sent [OF ready prep None] show ?thesis
          by (simp split: prod.splits option.splits)
      qed
      with assms have "m = m'" by simp
      with ready prep show ?thesis by blast
    qed
  qed
qed

text \<open>
  Claim C5. Every message the handler hands to the transport is addressed to exactly one
  recipient, the record's \<open>recipient_email\<close>, is sent from \<open>sender_email\<close> (the configured
  default sender when the record has none), and carries a Reply-To, naming that sender,
  if and only if the sender differs from the configured default sender.
\<close>

theorem reply_to_iff_sender_differs:
  assumes "m \<in> set (outbox (send_correspondence_email env db req email_id))"
    and "entries db email_id = Some e"
  shows "(msg_reply_to m = Some [get_default (dict_of (entry_fields e)) ''sender_email'' (DEFAULT_FROM_EMAIL env)])
           = (get_default (dict_of (entry_fields e)) ''sender_email'' (DEFAULT_FROM_EMAIL env)
              \<noteq> DEFAULT_FROM_EMAIL env)
         \<and> (msg_reply_to m = None)
           = (get_default (dict_of (entry_fields e)) ''sender_email'' (DEFAULT_FROM_EMAIL env)
              = DEFAULT_FROM_EMAIL env)
         \<and> msg_from_email m = get_default (dict_of (entry_fields e)) ''sender_email'' (DEFAULT_FROM_EMAIL env)
         \<and> msg_to m = [get_default (dict_of (entry_fields e)) ''recipient_email'' '''']
         \<and> length (msg_to m) = 1"
proof -
  from outbox_message [OF assms(1)] obtain e' errs lg where
    ready: "draft_ready env db email_id e'" and
    prep: "prepare_email env db req email_id (dict_of (entry_fields e')) = Inr (m, errs, lg)"
    by blast
  from ready have "entries db email_id = Some e'"
    using get_entry_Inr [of db email_id "[''purge/internal/email'']" e']
    by (simp add: draft_ready_def)
  with assms(2) have "e' = e" by simp
  with prepare_email_message [OF prep] obtain html body where
    "m = (compose_message env (dict_of (entry_fields e)) html body)
           \<lparr>msg_attachments := List.map_filter (attached env) (attachments_of db email_id)\<rparr>"
    by blast
  then show ?thesis by (simp add: compose_message_def Let_def)
qed

theorem reply_to_iff_sender_differs_witness:
  "(\<lparr>msg_subject = ''Hi'', msg_body = ''Hello'', msg_from_email = ''carol@example.com'',
      msg_to = [''bob@example.com''], msg_cc = None, msg_bcc = None,
      msg_reply_to = Some [''carol@example.com''],
      msg_alternatives = [(''<p>Hello</p>'', ''text/html'')], msg_attachments = []\<rparr>
     \<in> set (outbox (send_correspondence_email example_env (db_with replying_entry) example_request 1))
    \<and> entries (db_with replying_entry) 1 = Some replying_entry)
   \<and> get_default (dict_of (entry_fields replying_entry)) ''sender_email''
         (DEFAULT_FROM_EMAIL example_env) = ''carol@example.com''
   \<and> ''carol@example.com'' \<noteq> DEFAULT_FROM_EMAIL example_env"
proof -
  let ?m = "\<lparr>msg_subject = ''Hi'', msg_body = ''Hello'', msg_from_email = ''carol@example.com'',
      msg_to = [''bob@example.com''], msg_cc = None, msg_bcc = None,
      msg_reply_to = Some [''carol@example.com''],
      msg_alternatives = [(''<p>Hello</p>'', ''text/html'')], msg_attachments = []\<rparr>"
  have out: "outbox (send_correspondence_email example_env (db_with replying_entry) example_request 1) = [?m]"
    by code_simp
  then have mem: "?m \<in> set (outbox (send_correspondence_email example_env (db_with replying_entry) example_request 1))"
    by simp
  have e: "entries (db_with replying_entry) 1 = Some replying_entry"
    by (simp add: db_with_def)
  have s: "get_default (dict_of (entry_fields replying_entry)) ''sender_email''
         (DEFAULT_FROM_EMAIL example_env) = ''carol@example.com''"
    by code_simp
  from reply_to_iff_sender_differs [OF mem e] mem e s show ?thesis by simp
qed

subsection \<open>The labels of the required fields\<close>

lemma title_labels:
  "title (replace_char (CHR ''_'') (CHR '' '') ''recipient_email'') = ''Recipient Email''"
  "title (replace_char (CHR ''_'') (CHR '' '') ''subject'') = ''Subject''"
  "title (replace_char (CHR ''_'') (CHR '' '') ''email_date'') = ''Email Date''"
  "title (replace_char (CHR ''_'') (CHR '' '') ''email_type'') = ''Email Type''"
  by code_simp+

lemma missing_fields_explicit:
  "missing_fields d =
     (if truthy (d ''recipient_email'') then [] else [''Recipient Email''])
     @ (if truthy (d ''subject'') then [] else [''Subject''])
     @ (if truthy (d ''email_date'') then [] else [''Email Date''])
     @ (if truthy (d ''email_type'') then [] else [''Email Type''])"
  unfolding missing_fields_def required_fields_def
  by (simp only: title_labels list.map concat.simps append.simps if_distrib
        cong: if_cong) simp

subsection \<open>C3: every missing required field is reported\<close>

text \<open>
  Claim C3. When the record lacks one or more of \<open>recipient_email\<close>, \<open>subject\<close>,
  \<open>email_date\<close> and \<open>email_type\<close>, the handler lists all of the missing ones, in that
  order, in the one message \<open>Cannot send email. Missing required fields: X, Y\<close>; nothing
  is handed to the transport and the record store is left as it was.
\<close>

theorem missing_fields_all_reported:
  assumes "db_read_error env = None"
    and "get_entry db email_id [''purge/internal/email''] = Inr e"
    and "\<not> (truthy (dict_of (entry_fields e) ''recipient_email'')
            \<and> truthy (dict_of (entry_fields e) ''subject'')
            \<and> truthy (dict_of (entry_fields e) ''email_date'')
            \<and> truthy (dict_of (entry_fields e) ''email_type''))"
  shows "missing_fields (dict_of (entry_fields e)) =
           (if truthy (dict_of (entry_fields e) ''recipient_email'') then [] else [''Recipient Email''])
           @ (if truthy (dict_of (entry_fields e) ''subject'') then [] else [''Subject''])
           @ (if truthy (dict_of (entry_fields e) ''email_date'') then [] else [''Email Date''])
           @ (if truthy (dict_of (entry_fields e) ''email_type'') then [] else [''Email Type''])
         \<and> response (send_correspondence_email env db req email_id) =
             (if wants_json req
              then JsonResponse
                     [(''success'', JBool False),
                      (''error'', JStr (''Cannot send email. Missing required fields: ''
                                       @ join '', '' (missing_fields (dict_of (entry_fields e)))))]
              else redirect_back (dict_of (entry_fields e)))
         \<and> flash (send_correspondence_email env db req email_id) =
             (if wants_json req then []
              else [(ERROR, ''Cannot send email. Missing required fields: ''
                            @ join '', '' (missing_fields (dict_of (entry_fields e))))])
         \<and> outbox (send_correspondence_email env db req email_id) = []
         \<and> db_after (send_correspondence_email env db req email_id) = db"
proof -
  from assms(3) have "missing_fields (dict_of (entry_fields e)) \<noteq> []"
    unfolding missing_fields_explicit by auto
  from handler_missing [OF assms(1,2) this] show ?thesis
    by (simp add: json_error_def missing_fields_explicit [symmetric])
qed

theorem missing_fields_all_reported_witness:
  "(db_read_error example_env = None
    \<and> get_entry (db_with incomplete_entry) 1 [''purge/internal/email''] = Inr incomplete_entry
    \<and> \<not> (truthy (dict_of (entry_fields incomplete_entry) ''recipient_email'')
            \<and> truthy (dict_of (entry_fields incomplete_entry) ''subject'')
            \<and> truthy (dict_of (entry_fields incomplete_entry) ''email_date'')
            \<and> truthy (dict_of (entry_fields incomplete_entry) ''email_type'')))
   \<and> response (send_correspondence_email example_env (db_with incomplete_entry) example_request 1) =
       JsonResponse
         [(''success'', JBool False),
          (''error'', JStr ''Cannot send email. Missing required fields: Subject, Email Type'')]
   \<and> outbox (send_correspondence_email example_env (db_with incomplete_entry) example_request 1) = []"
proof -
  have 1: "db_read_error example_env = None" by (simp add: example_env_def)
  have 2: "get_entry (db_with incomplete_entry) 1 [''purge/internal/email''] = Inr incomplete_entry"
    by (simp add: get_entry_def db_with_def incomplete_entry_def)
  have s: "\<not> truthy (dict_of (entry_fields incomplete_entry) ''subject'')"
    by (simp add: truthy_def dict_of_def incomplete_entry_def)
  then have 3: "\<not> (truthy (dict_of (entry_fields incomplete_entry) ''recipient_email'')
            \<and> truthy (dict_of (entry_fields incomplete_entry) ''subject'')
            \<and> truthy (dict_of (entry_fields incomplete_entry) ''email_date'')
            \<and> truthy (dict_of (entry_fields incomplete_entry) ''email_type''))"
    by simp
  have j: "wants_json example_request" by (simp add: wants_json_def example_request_def)
  have m: "''Cannot send email. Missing required fields: ''
           @ join '', '' (missing_fields (dict_of (entry_fields incomplete_entry)))
           = ''Cannot send email. Missing required fields: Subject, Email Type''"
    by code_simp
  from missing_fields_all_reported [OF 1 2 3, of example_request] 1 2 3 j m
  show ?thesis by simp
qed

subsection \<open>C10: a required field with an empty value\<close>

text \<open>
  Claim C10. A required field that is present with the empty string as its value is
  treated as missing: its name, with underscores replaced by spaces and title-cased
  (\<open>Recipient Email\<close>, \<open>Subject\<close>, \<open>Email Date\<close>, \<open>Email Type\<close>), is among the reported
  fields and the handler answers with the missing-fields error.
\<close>

theorem empty_value_counts_as_missing:
  assumes "db_read_error env = None"
    and "get_entry db email_id [''purge/internal/email''] = Inr e"
    and "field \<in> set required_fields"
    and "dict_of (entry_fields e) field = Some ''''"
  shows "title (replace_char (CHR ''_'') (CHR '' '') field) \<in> set (missing_fields (dict_of (entry_fields e)))
         \<and> map (\<lambda>f. title (replace_char (CHR ''_'') (CHR '' '') f)) required_fields
            = [''Recipient Email'', ''Subject'', ''Email Date'', ''Email Type'']
         \<and> response (send_correspondence_email env db req email_id) =
             (if wants_json req
              then JsonResponse
                     [(''success'', JBool False),
                      (''error'', JStr (''Cannot send email. Missing required fields: ''
                                       @ join '', '' (missing_fields (dict_of (entry_fields e)))))]
              else redirect_back (dict_of (entry_fields e)))
         \<and> flash (send_correspondence_email env db req email_id) =
             (if wants_json req then []
              else [(ERROR, ''Cannot send email. Missing required fields: ''
                            @ join '', '' (missing_fields (dict_of (entry_fields e))))])
         \<and> outbox (send_correspondence_email env db req email_id) = []
         \<and> db_after (send_correspondence_email env db req email_id) = db"
proof -
  from assms(4) have "\<not> truthy (dict_of (entry_fields e) field)"
    by (simp add: truthy_def)
  with assms(3) have mem: "title (replace_char (CHR ''_'') (CHR '' '') field)
                        \<in> set (missing_fields (dict_of (entry_fields e)))"
    by (auto simp: missing_fields_def)
  then have ne: "missing_fields (dict_of (entry_fields e)) \<noteq> []" by auto
  have labels: "map (\<lambda>f. title (replace_char (CHR ''_'') (CHR '' '') f)) required_fields
            = [''Recipient Email'', ''Subject'', ''Email Date'', ''Email Type'']"
    by (simp add: required_fields_def title_labels)
  from handler_missing [OF assms(1,2) ne] mem labels show ?thesis
    by (simp add: json_error_def)
qed

theorem empty_value_counts_as_missing_witness:
  "(db_read_error example_env = None
    \<and> get_entry (db_with blank_entry) 1 [''purge/internal/email''] = Inr blank_entry
    \<and> ''recipient_email'' \<in> set required_fields
    \<and> dict_of (entry_fields blank_entry) ''recipient_email'' = Some '''')
   \<and> response (send_correspondence_email example_env (db_with blank_entry) example_request 1) =
       JsonResponse
         [(''success'', JBool False),
          (''error'', JStr ''Cannot send email. Missing required fields: Recipient Email'')]"
proof -
  have 1: "db_read_error example_env = None" by (simp add: example_env_def)
  have 2: "get_entry (db_with blank_entry) 1 [''purge/internal/email''] = Inr blank_entry"
    by (simp add: get_entry_def db_with_def blank_entry_def)
  have 3: "''recipient_email'' \<in> set required_fields" by (simp add: required_fields_def)
  have 4: "dict_of (entry_fields blank_entry) ''recipient_email'' = Some ''''"
    by (simp add: dict_of_def blank_entry_def)
  have j: "wants_json example_request" by (simp add: wants_json_def example_request_def)
  have m: "''Cannot send email. Missing required fields: ''
           @ join '', '' (missing_fields (dict_of (entry_fields blank_entry)))
           = ''Cannot send email. Missing required fields: Recipient Email''"
    by code_simp
  from empty_value_counts_as_missing [OF 1 2 3 4, of example_request] 1 2 3 4 j m
  show ?thesis by simp
qed

subsection \<open>C2: a record that is not a draft\<close>

text \<open>
  Claim C2 says that every record whose status is not \<open>Draft\<close> is refused with the
  state-conflict error. The required fields are checked first (lines 36 to 57): a record
  with status \<open>Sent\<close> and no \<open>subject\<close> is answered with the missing-fields error.
\<close>

theorem not_draft_validation_first_counterexample:
  "get_default (dict_of (entry_fields sent_incomplete_entry)) ''status'' '''' = ''Sent''
   \<and> response (send_correspondence_email example_env (db_with sent_incomplete_entry) example_request 1)
       = JsonResponse
           [(''success'', JBool False),
            (''error'', JStr ''Cannot send email. Missing required fields: Subject'')]
   \<and> response (send_correspondence_email example_env (db_with sent_incomplete_entry) example_request 1)
       \<noteq> JsonResponse
           [(''success'', JBool False),
            (''error'', JStr ''Email cannot be sent. Current status: Sent. Only Draft emails can be sent.'')]"
  by code_simp

text \<open>
  Claim C2, amended. For every record whose status is not \<open>Draft\<close> (a record without a
  status counts as status \<open>''\<close>), sending fails: the handler answers with an error, hands
  nothing to the transport and leaves the record store as it was. The error is the
  state-conflict error naming the current status when the record has its four required
  fields, and the missing-fields error otherwise, since that check comes first. For a
  record with its required fields and status \<open>Sent\<close> a JSON caller receives
  \<open>{success: false, error: "Email cannot be sent. Current status: Sent. Only Draft emails
  can be sent."}\<close>.
\<close>

theorem not_draft_is_refused:
  assumes "db_read_error env = None"
    and "get_entry db email_id [''purge/internal/email''] = Inr e"
    and "get_default (dict_of (entry_fields e)) ''status'' '''' \<noteq> ''Draft''"
  shows "outbox (send_correspondence_email env db req email_id) = []
         \<and> db_after (send_correspondence_email env db req email_id) = db
         \<and> response (send_correspondence_email env db req email_id) =
             (if wants_json req
              then JsonResponse
                     [(''success'', JBool False),
                      (''error'', JStr
                         (if missing_fields (dict_of (entry_fields e)) = []
                          then ''Email cannot be sent. Current status: ''
                               @ get_default (dict_of (entry_fields e)) ''status'' ''''
                               @ ''. Only Draft emails can be sent.''
                          else ''Cannot send email. Missing required fields: ''
                               @ join '', '' (missing_fields (dict_of (entry_fields e)))))]
              else redirect_back (dict_of (entry_fields e)))
         \<and> flash (send_correspondence_email env db req email_id) =
             (if wants_json req then []
              else [if missing_fields (dict_of (entry_fields e)) = []
                    then (WARNING, ''Email cannot be sent. Current status: ''
                                   @ get_default (dict_of (entry_fields e)) ''status'' ''''
                                   @ ''. Only Draft emails can be sent.'')
                    else (ERROR, ''Cannot send email. Missing required fields: ''
                                 @ join '', '' (missing_fields (dict_of (entry_fields e))))])"
proof (cases "missing_fields (dict_of (entry_fields e)) = []")
  case True
  from handler_not_draft [OF assms(1,2) True assms(3)] True show ?thesis
    by (simp add: json_error_def)
next
  case False
  from handler_missing [OF assms(1,2) False] False show ?thesis
    by (simp add: json_error_def)
qed

theorem not_draft_is_refused_witness:
  "(db_read_error example_env = None
    \<and> get_entry (db_with sent_entry) 1 [''purge/internal/email''] = Inr sent_entry
    \<and> get_default (dict_of (entry_fields sent_entry)) ''status'' '''' \<noteq> ''Draft'')
   \<and> missing_fields (dict_of (entry_fields sent_entry)) = []
   \<and> response (send_correspondence_email example_env (db_with sent_entry) example_request 1) =
       JsonResponse
         [(''success'', JBool False),
          (''error'', JStr ''Email cannot be sent. Current status: Sent. Only Draft emails can be sent.'')]
   \<and> outbox (send_correspondence_email example_env (db_with sent_entry) example_request 1) = []
   \<and> db_after (send_correspondence_email example_env (db_with sent_entry) example_request 1)
       = db_with sent_entry
   \<and> (get_entry (db_with sent_incomplete_entry) 1 [''purge/internal/email'']
         = Inr sent_incomplete_entry
       \<and> get_default (dict_of (entry_fields sent_incomplete_entry)) ''status'' '''' \<noteq> ''Draft'')
   \<and> outbox (send_correspondence_email example_env (db_with sent_incomplete_entry) example_request 1)
       = []
   \<and> db_after (send_correspondence_email example_env (db_with sent_incomplete_entry) example_request 1)
       = db_with sent_incomplete_entry"
proof -
  have 1: "db_read_error example_env = None" by (simp add: example_env_def)
  have 2: "get_entry (db_with sent_entry) 1 [''purge/internal/email''] = Inr sent_entry"
    by (simp add: get_entry_def db_with_def sent_entry_def)
  have 3: "missing_fields (dict_of (entry_fields sent_entry)) = []" by code_simp
  have s: "get_default (dict_of (entry_fields sent_entry)) ''status'' '''' = ''Sent''" by code_simp
  then have 4: "get_default (dict_of (entry_fields sent_entry)) ''status'' '''' \<noteq> ''Draft''" by simp
  have j: "wants_json example_request" by (simp add: wants_json_def example_request_def)
  have 5: "get_entry (db_with sent_incomplete_entry) 1 [''purge/internal/email'']
             = Inr sent_incomplete_entry"
    by (simp add: get_entry_def db_with_def sent_incomplete_entry_def)
  have s': "get_default (dict_of (entry_fields sent_incomplete_entry)) ''status'' '''' = ''Sent''"
    by code_simp
  then have 6: "get_default (dict_of (entry_fields sent_incomplete_entry)) ''status'' '''' \<noteq> ''Draft''"
    by simp
  note complete = not_draft_is_refused [OF 1 2 4, of example_request]
  note incomplete = not_draft_is_refused [OF 1 5 6, of example_request]
  have r: "response (send_correspondence_email example_env (db_with sent_entry) example_request 1) =
       JsonResponse
         [(''success'', JBool False),
          (''error'', JStr ''Email cannot be sent. Current status: Sent. Only Draft emails can be sent.'')]"
    using complete [THEN conjunct2, THEN conjunct2, THEN conjunct1] j 3 s by simp
  show ?thesis
    by (intro conjI)
       (rule 1 2 3 4 5 6 r complete [THEN conjunct1] complete [THEN conjunct2, THEN conjunct1]
             incomplete [THEN conjunct1] incomplete [THEN conjunct2, THEN conjunct1])+
qed

subsection \<open>C7: the linked record\<close>

text \<open>
  Claim C7 says that when the lookup of the linked record fails, the context fields
  account, provider, facility and status default to \<open>N/A\<close>. The handler leaves
  \<open>purge_info\<close> the empty dictionary in that case (lines 95 and 110 to 111): the template
  finds no account in its context. The record below names the linked record 8, which
  does not exist; the template prints what it finds under \<open>purge_info.account\<close>.
\<close>

theorem linked_lookup_missing_counterexample:
  "map msg_alternatives
     (outbox (send_correspondence_email probe_env (db_with orphan_entry) example_request 1))
     = [[(''no account in the context'', ''text/html'')]]
   \<and> map msg_alternatives
     (outbox (send_correspondence_email probe_env (db_with orphan_entry) example_request 1))
     \<noteq> [[(''account: N/A'', ''text/html'')]]"
  by code_simp

lemma lookup_purge_info_absent:
  assumes "d ''purge_record_id'' = Some purge_record_id" "purge_record_id \<noteq> []"
    and "entry_id_of env purge_record_id = Inr i"
    and "get_entry db i [''purge/internal'', ''purge/ic''] = Inl x"
  shows "lookup_purge_info env db d = Inr []"
  using assms get_entry_Inl [OF assms(4)] by (simp add: lookup_purge_info_def)

lemma lookup_purge_info_found:
  assumes "d ''purge_record_id'' = Some purge_record_id" "purge_record_id \<noteq> []"
    and "entry_id_of env purge_record_id = Inr i"
    and "get_entry db i [''purge/internal'', ''purge/ic''] = Inr purge_record"
  shows "lookup_purge_info env db d =
           Inr [(''id'', purge_record_id),
                (''account'', get_default (dict_of (entry_fields purge_record)) ''account'' ''N/A''),
                (''provider'', get_default (dict_of (entry_fields purge_record)) ''provider'' ''N/A''),
                (''facility'', get_default (dict_of (entry_fields purge_record)) ''facility'' ''N/A''),
                (''status'', get_default (dict_of (entry_fields purge_record)) ''status'' ''N/A'')]"
  using assms by (simp add: lookup_purge_info_def Let_def)

lemma handler_reaches_send:
  assumes "draft_ready env db email_id e"
    and "prepare_email env db req email_id (dict_of (entry_fields e)) = Inr (m, errs, lg)"
  shows "outbox (send_correspondence_email env db req email_id) = [m]"
proof (cases "send env m")
  case (Some x)
  with assms show ?thesis by (simp add: handler_send_failed)
next
  case None
  from handler_sent [OF assms None] show ?thesis
    by (simp split: prod.splits option.splits)
qed

text \<open>
  Claim C7, amended. When \<open>purge_record_id\<close> is present and the linked record does not
  exist, the failure is passed over: the request goes on to the transport, and the
  context handed to the template has \<open>purge_info\<close> empty, so that account, provider,
  facility and status have no value in it; the HTML part of the message is what the
  template makes of that context. The default \<open>N/A\<close> is what each of account, provider,
  facility and status gets in the context when the linked record is found and has no
  such field.
\<close>

theorem linked_lookup_is_best_effort:
  assumes "draft_ready env db email_id e"
    and "dict_of (entry_fields e) ''purge_record_id'' = Some purge_record_id"
    and "purge_record_id \<noteq> []"
    and "entry_id_of env purge_record_id = Inr i"
  shows "(get_entry db i [''purge/internal'', ''purge/ic''] = Inl DoesNotExist \<longrightarrow>
            lookup_purge_info env db (dict_of (entry_fields e)) = Inr []
            \<and> ctx_purge_info (build_email_context env req (dict_of (entry_fields e)) []) = []
            \<and> map_of (ctx_purge_info (build_email_context env req (dict_of (entry_fields e)) []))
                 = Map.empty
            \<and> (\<exists>m. outbox (send_correspondence_email env db req email_id) = [m]
                 \<and> msg_alternatives m =
                     [(case render_to_string env
                              (build_email_context env req (dict_of (entry_fields e)) []) of
                         Inr html_content \<Rightarrow> html_content
                       | Inl template_error \<Rightarrow> fallback_html req (dict_of (entry_fields e)),
                       ''text/html'')]))
         \<and> (get_entry db i [''purge/internal'', ''purge/ic''] = Inr purge_record \<longrightarrow>
            lookup_purge_info env db (dict_of (entry_fields e)) =
              Inr [(''id'', purge_record_id),
                   (''account'', get_default (dict_of (entry_fields purge_record)) ''account'' ''N/A''),
                   (''provider'', get_default (dict_of (entry_fields purge_record)) ''provider'' ''N/A''),
                   (''facility'', get_default (dict_of (entry_fields purge_record)) ''facility'' ''N/A''),
                   (''status'', get_default (dict_of (entry_fields purge_record)) ''status'' ''N/A'')]
            \<and> (\<exists>m. outbox (send_correspondence_email env db req email_id) = [m]
                 \<and> msg_alternatives m =
                     [(case render_to_string env
                              (build_email_context env req (dict_of (entry_fields e))
                                 [(''id'', purge_record_id),
                                  (''account'', get_default (dict_of (entry_fields purge_record)) ''account'' ''N/A''),
                                  (''provider'', get_default (dict_of (entry_fields purge_record)) ''provider'' ''N/A''),
                                  (''facility'', get_default (dict_of (entry_fields purge_record)) ''facility'' ''N/A''),
                                  (''status'', get_default (dict_of (entry_fields purge_record)) ''status'' ''N/A'')]) of
                         Inr html_content \<Rightarrow> html_content
                       | Inl template_error \<Rightarrow> fallback_html req (dict_of (entry_fields e)),
                       ''text/html'')]))"
proof -
  let ?d = "dict_of (entry_fields e)"
  have sent: "\<exists>m. outbox (send_correspondence_email env db req email_id) = [m]
                 \<and> msg_alternatives m =
                     [(case render_to_string env (build_email_context env req ?d p) of
                         Inr html_content \<Rightarrow> html_content
                       | Inl template_error \<Rightarrow> fallback_html req ?d,
                       ''text/html'')]"
    if l: "lookup_purge_info env db ?d = Inr p" for p
  proof -
    let ?rb = "render_bodies env req ?d (build_email_context env req ?d p)"
    from prepare_email_Inr [OF l, of req email_id] obtain m errs lg where
      prep: "prepare_email env db req email_id ?d = Inr (m, errs, lg)" and
      m: "m = (compose_message env ?d (fst (fst ?rb)) (snd (fst ?rb)))
                \<lparr>msg_attachments := List.map_filter (attached env) (attachments_of db email_id)\<rparr>"
      by simp
    have out: "outbox (send_correspondence_email env db req email_id) = [m]"
      by (rule handler_reaches_send [OF assms(1) prep])
    have html: "fst (fst ?rb) =
                  (case render_to_string env (build_email_context env req ?d p) of
                     Inr html_content \<Rightarrow> html_content
                   | Inl template_error \<Rightarrow> fallback_html req ?d)"
      by (simp add: render_bodies_def split: sum.splits)
    have "msg_alternatives m = [(fst (fst ?rb), ''text/html'')]"
      by (simp add: m compose_message_def Let_def)
    with out html show ?thesis by simp
  qed
  show ?thesis
  proof (intro conjI impI)
    assume a: "get_entry db i [''purge/internal'', ''purge/ic''] = Inl DoesNotExist"
    from lookup_purge_info_absent [of ?d, OF assms(2,3,4) a]
    show l: "lookup_purge_info env db ?d = Inr []" .
    show "ctx_purge_info (build_email_context env req ?d []) = []"
      by (simp add: build_email_context_def)
    show "map_of (ctx_purge_info (build_email_context env req ?d [])) = Map.empty"
      by (simp add: build_email_context_def)
    from sent [OF l]
    show "\<exists>m. outbox (send_correspondence_email env db req email_id) = [m]
                 \<and> msg_alternatives m =
                     [(case render_to_string env (build_email_context env req ?d []) of
                         Inr html_content \<Rightarrow> html_content
                       | Inl template_error \<Rightarrow> fallback_html req ?d,
                       ''text/html'')]" .
  next
    assume a: "get_entry db i [''purge/internal'', ''purge/ic''] = Inr purge_record"
    let ?p = "[(''id'', purge_record_id),
               (''account'', get_default (dict_of (entry_fields purge_record)) ''account'' ''N/A''),
               (''provider'', get_default (dict_of (entry_fields purge_record)) ''provider'' ''N/A''),
               (''facility'', get_default (dict_of (entry_fields purge_record)) ''facility'' ''N/A''),
               (''status'', get_default (dict_of (entry_fields purge_record)) ''status'' ''N/A'')]"
    from lookup_purge_info_found [of ?d, OF assms(2,3,4) a]
    show l: "lookup_purge_info env db ?d = Inr ?p" .
    from sent [OF l]
    show "\<exists>m. outbox (send_correspondence_email env db req email_id) = [m]
                 \<and> msg_alternatives m =
                     [(case render_to_string env (build_email_context env req ?d ?p) of
                         Inr html_content \<Rightarrow> html_content
                       | Inl template_error \<Rightarrow> fallback_html req ?d,
                       ''text/html'')]" .
  qed
qed

lemma orphan_ready: "draft_ready probe_env (db_with orphan_entry) 1 orphan_entry"
  unfolding draft_ready_def by (intro conjI) code_simp+

lemma linked_ready: "draft_ready probe_env linked_db 1 orphan_entry"
  unfolding draft_ready_def by (intro conjI) code_simp+

theorem linked_lookup_is_best_effort_witness:
  "(draft_ready probe_env (db_with orphan_entry) 1 orphan_entry
    \<and> dict_of (entry_fields orphan_entry) ''purge_record_id'' = Some ''8''
    \<and> ''8'' \<noteq> []
    \<and> entry_id_of probe_env ''8'' = Inr 8
    \<and> get_entry (db_with orphan_entry) 8 [''purge/internal'', ''purge/ic''] = Inl DoesNotExist)
   \<and> lookup_purge_info probe_env (db_with orphan_entry) (dict_of (entry_fields orphan_entry)) = Inr []
   \<and> map msg_alternatives
        (outbox (send_correspondence_email probe_env (db_with orphan_entry) example_request 1))
       = [[(''no account in the context'', ''text/html'')]]
   \<and> (draft_ready probe_env linked_db 1 orphan_entry
    \<and> get_entry linked_db 8 [''purge/internal'', ''purge/ic''] = Inr purge_entry)
   \<and> lookup_purge_info probe_env linked_db (dict_of (entry_fields orphan_entry)) =
       Inr [(''id'', ''8''), (''account'', ''N/A''), (''provider'', ''Acme''),
            (''facility'', ''N/A''), (''status'', ''Open'')]
   \<and> map msg_alternatives
        (outbox (send_correspondence_email probe_env linked_db example_request 1))
       = [[(''account: N/A'', ''text/html'')]]"
proof -
  let ?d = "dict_of (entry_fields orphan_entry)"
  have 2: "?d ''purge_record_id'' = Some ''8''" by code_simp
  have 3: "''8'' \<noteq> []" by simp
  have 4: "entry_id_of probe_env ''8'' = Inr 8" by code_simp
  have 5: "get_entry (db_with orphan_entry) 8 [''purge/internal'', ''purge/ic''] = Inl DoesNotExist"
    by (simp add: get_entry_def db_with_def)
  have 6: "get_entry linked_db 8 [''purge/internal'', ''purge/ic''] = Inr purge_entry"
    by (simp add: get_entry_def linked_db_def purge_entry_def)
  have v: "[(''id'', ''8''),
            (''account'', get_default (dict_of (entry_fields purge_entry)) ''account'' ''N/A''),
            (''provider'', get_default (dict_of (entry_fields purge_entry)) ''provider'' ''N/A''),
            (''facility'', get_default (dict_of (entry_fields purge_entry)) ''facility'' ''N/A''),
            (''status'', get_default (dict_of (entry_fields purge_entry)) ''status'' ''N/A'')]
           = [(''id'', ''8''), (''account'', ''N/A''), (''provider'', ''Acme''),
              (''facility'', ''N/A''), (''status'', ''Open'')]"
    by code_simp
  have r0: "(case render_to_string probe_env (build_email_context probe_env example_request ?d []) of
               Inr html_content \<Rightarrow> html_content
             | Inl template_error \<Rightarrow> fallback_html example_request ?d)
            = ''no account in the context''"
    by (simp add: probe_env_def build_email_context_def)
  have r1: "(case render_to_string probe_env
                   (build_email_context probe_env example_request ?d
                      [(''id'', ''8''), (''account'', ''N/A''), (''provider'', ''Acme''),
                       (''facility'', ''N/A''), (''status'', ''Open'')]) of
               Inr html_content \<Rightarrow> html_content
             | Inl template_error \<Rightarrow> fallback_html example_request ?d)
            = ''account: N/A''"
    by (simp add: probe_env_def build_email_context_def)
  note absent = linked_lookup_is_best_effort
                  [OF orphan_ready 2 3 4, of example_request purge_entry, THEN conjunct1, THEN mp, OF 5]
  note found = linked_lookup_is_best_effort
                  [OF linked_ready 2 3 4, of example_request purge_entry, THEN conjunct2, THEN mp, OF 6]
  have a1: "lookup_purge_info probe_env (db_with orphan_entry) ?d = Inr []"
    by (rule absent [THEN conjunct1])
  from absent [THEN conjunct2, THEN conjunct2, THEN conjunct2]
  have a2: "map msg_alternatives
        (outbox (send_correspondence_email probe_env (db_with orphan_entry) example_request 1))
       = [[(''no account in the context'', ''text/html'')]]"
    unfolding r0 by auto
  have f1: "lookup_purge_info probe_env linked_db ?d =
       Inr [(''id'', ''8''), (''account'', ''N/A''), (''provider'', ''Acme''),
            (''facility'', ''N/A''), (''status'', ''Open'')]"
    using found [THEN conjunct1] unfolding v .
  from found [THEN conjunct2]
  have f2: "map msg_alternatives
        (outbox (send_correspondence_email probe_env linked_db example_request 1))
       = [[(''account: N/A'', ''text/html'')]]"
    unfolding v r1 by auto
  show ?thesis
    by (intro conjI) (rule orphan_ready linked_ready 2 3 4 5 6 a1 a2 f1 f2)+
qed

subsection \<open>C8: unexpected exceptions\<close>

text \<open>
  Claim C8 says that an unexpected exception reaches the caller as a generic message that
  does not expose the exception's details. The top-level handler builds the message from
  \<open>str(e)\<close> (line 358): the text of the exception is in the response.
\<close>

theorem unexpected_error_text_counterexample:
  "db_read_error broken_env = Some ''connection to db-primary:5432 refused''
   \<and> response (send_correspondence_email broken_env example_db example_request 1)
       = JsonResponse
           [(''success'', JBool False),
            (''error'', JStr ''Error sending email: connection to db-primary:5432 refused'')]"
  by code_simp

text \<open>
  Claim C8, amended. An exception raised while the record is read or while the send is
  recorded is caught by the top-level handler, logged with \<open>exc_info\<close>, and reaches the
  caller as \<open>Error sending email: \<close> followed by the text of the exception; when it is
  raised while the send is recorded, the store is as it was before the request. An
  exception raised while the email is prepared is caught by the handler of that block,
  logged, and reaches the caller as \<open>Error preparing email: \<close> followed by its text. In
  each case the handler returns a response.
\<close>

theorem unexpected_exception_is_reported:
  "(db_read_error env = Some x \<longrightarrow>
      response (send_correspondence_email env db req email_id) =
        (if wants_json req
         then JsonResponse [(''success'', JBool False), (''error'', JStr (''Error sending email: '' @ x))]
         else Redirect ''bluebird:view_internal_purge_records'' None)
      \<and> flash (send_correspondence_email env db req email_id) =
        (if wants_json req then [] else [(ERROR, ''Error sending email: '' @ x)])
      \<and> logged (send_correspondence_email env db req email_id) =
        [Log ERROR (''Unexpected error in send_correspondence_email: '' @ x) True]
      \<and> outbox (send_correspondence_email env db req email_id) = []
      \<and> db_after (send_correspondence_email env db req email_id) = db)
   \<and> (draft_ready env db email_id e
       \<and> prepare_email env db req email_id (dict_of (entry_fields e)) = Inr (m, errs, lg)
       \<and> send env m = None
       \<and> fst (update_status env req email_id e db) = Some x \<longrightarrow>
      response (send_correspondence_email env db req email_id) =
        (if wants_json req
         then JsonResponse [(''success'', JBool False), (''error'', JStr (''Error sending email: '' @ x))]
         else Redirect ''bluebird:view_internal_purge_records'' None)
      \<and> flash (send_correspondence_email env db req email_id) =
        (if wants_json req then [] else [(ERROR, ''Error sending email: '' @ x)])
      \<and> logged (send_correspondence_email env db req email_id) =
        lg @ [Log ERROR (''Unexpected error in send_correspondence_email: '' @ x) True]
      \<and> outbox (send_correspondence_email env db req email_id) = [m]
      \<and> db_after (send_correspondence_email env db req email_id) = db)
   \<and> (draft_ready env db email_id e
       \<and> prepare_email env db req email_id (dict_of (entry_fields e)) = Inl x \<longrightarrow>
      response (send_correspondence_email env db req email_id) =
        (if wants_json req
         then JsonResponse [(''success'', JBool False), (''error'', JStr (''Error preparing email: '' @ x))]
         else redirect_back (dict_of (entry_fields e)))
      \<and> flash (send_correspondence_email env db req email_id) =
        (if wants_json req then [] else [(ERROR, ''Error preparing email: '' @ x)])
      \<and> logged (send_correspondence_email env db req email_id) =
        [Log ERROR (''Error preparing email: '' @ x) False]
      \<and> outbox (send_correspondence_email env db req email_id) = []
      \<and> db_after (send_correspondence_email env db req email_id) = db)"
proof (intro conjI impI)
  assume "db_read_error env = Some x"
  note h = handler_read_error [OF this, of db req email_id]
  show "response (send_correspondence_email env db req email_id) =
        (if wants_json req
         then JsonResponse [(''success'', JBool False), (''error'', JStr (''Error sending email: '' @ x))]
         else Redirect ''bluebird:view_internal_purge_records'' None)"
    and "flash (send_correspondence_email env db req email_id) =
        (if wants_json req then [] else [(ERROR, ''Error sending email: '' @ x)])"
    and "logged (send_correspondence_email env db req email_id) =
        [Log ERROR (''Unexpected error in send_correspondence_email: '' @ x) True]"
    and "outbox (send_correspondence_email env db req email_id) = []"
    and "db_after (send_correspondence_email env db req email_id) = db"
    by (simp_all add: h json_error_def)
next
  assume a: "draft_ready env db email_id e
       \<and> prepare_email env db req email_id (dict_of (entry_fields e)) = Inr (m, errs, lg)
       \<and> send env m = None
       \<and> fst (update_status env req email_id e db) = Some x"
  then obtain db' where u: "update_status env req email_id e db = (Some x, db')"
    by (cases "update_status env req email_id e db") auto
  then have "db' = db" by (rule update_status_failed)
  with a u have h: "send_correspondence_email env db req email_id = unexpected_exit req x db lg [m]"
    using handler_sent [of env db email_id e req m errs lg] by simp
  show "response (send_correspondence_email env db req email_id) =
        (if wants_json req
         then JsonResponse [(''success'', JBool False), (''error'', JStr (''Error sending email: '' @ x))]
         else Redirect ''bluebird:view_internal_purge_records'' None)"
    and "flash (send_correspondence_email env db req email_id) =
        (if wants_json req then [] else [(ERROR, ''Error sending email: '' @ x)])"
    and "logged (send_correspondence_email env db req email_id) =
        lg @ [Log ERROR (''Unexpected error in send_correspondence_email: '' @ x) True]"
    and "outbox (send_correspondence_email env db req email_id) = [m]"
    and "db_after (send_correspondence_email env db req email_id) = db"
    by (simp_all add: h json_error_def)
next
  assume a: "draft_ready env db email_id e
       \<and> prepare_email env db req email_id (dict_of (entry_fields e)) = Inl x"
  then have h: "send_correspondence_email env db req email_id =
     error_exit req (dict_of (entry_fields e)) ERROR (''Error preparing email: '' @ x) db
       [Log ERROR (''Error preparing email: '' @ x) False] []"
    using handler_prep_error [of env db email_id e req x] by simp
  show "response (send_correspondence_email env db req email_id) =
        (if wants_json req
         then JsonResponse [(''success'', JBool False), (''error'', JStr (''Error preparing email: '' @ x))]
         else redirect_back (dict_of (entry_fields e)))"
    and "flash (send_correspondence_email env db req email_id) =
        (if wants_json req then [] else [(ERROR, ''Error preparing email: '' @ x)])"
    and "logged (send_correspondence_email env db req email_id) =
        [Log ERROR (''Error preparing email: '' @ x) False]"
    and "outbox (send_correspondence_email env db req email_id) = []"
    and "db_after (send_correspondence_email env db req email_id) = db"
    by (simp_all add: h json_error_def)
qed

lemma failing_write_ready: "draft_ready failing_write_env example_db 1 example_entry"
  unfolding draft_ready_def by (intro conjI) code_simp+

lemma malformed_ready: "draft_ready example_env (db_with malformed_entry) 1 malformed_entry"
  unfolding draft_ready_def by (intro conjI) code_simp+

theorem unexpected_exception_is_reported_witness:
  "db_read_error broken_env = Some ''connection to db-primary:5432 refused''
   \<and> response (send_correspondence_email broken_env example_db example_request 1)
       = JsonResponse
           [(''success'', JBool False),
            (''error'', JStr ''Error sending email: connection to db-primary:5432 refused'')]
   \<and> logged (send_correspondence_email broken_env example_db example_request 1)
       = [Log ERROR ''Unexpected error in send_correspondence_email: connection to db-primary:5432 refused'' True]
   \<and> (draft_ready failing_write_env example_db 1 example_entry
       \<and> prepare_email failing_write_env example_db example_request 1
            (dict_of (entry_fields example_entry)) = Inr (example_message, [], [])
       \<and> send failing_write_env example_message = None
       \<and> fst (update_status failing_write_env example_request 1 example_entry example_db)
            = Some ''deadlock detected'')
   \<and> response (send_correspondence_email failing_write_env example_db example_request 1)
       = JsonResponse
           [(''success'', JBool False), (''error'', JStr ''Error sending email: deadlock detected'')]
   \<and> db_after (send_correspondence_email failing_write_env example_db example_request 1) = example_db
   \<and> (draft_ready example_env (db_with malformed_entry) 1 malformed_entry
       \<and> prepare_email example_env (db_with malformed_entry) example_request 1
            (dict_of (entry_fields malformed_entry)) = Inl ''invalid id: abc'')
   \<and> response (send_correspondence_email example_env (db_with malformed_entry) example_request 1)
       = JsonResponse
           [(''success'', JBool False), (''error'', JStr ''Error preparing email: invalid id: abc'')]"
proof -
  have j: "wants_json example_request" by (simp add: wants_json_def example_request_def)
  have r: "db_read_error broken_env = Some ''connection to db-primary:5432 refused''"
    by (simp add: broken_env_def)
  have p: "prepare_email failing_write_env example_db example_request 1
            (dict_of (entry_fields example_entry)) = Inr (example_message, [], [])"
    by code_simp
  have s: "send failing_write_env example_message = None"
    by (simp add: failing_write_env_def example_env_def)
  have u: "fst (update_status failing_write_env example_request 1 example_entry example_db)
            = Some ''deadlock detected''"
    by code_simp
  have q: "prepare_email example_env (db_with malformed_entry) example_request 1
            (dict_of (entry_fields malformed_entry)) = Inl ''invalid id: abc''"
    by code_simp
  from unexpected_exception_is_reported
         [of broken_env "''connection to db-primary:5432 refused''" example_db example_request 1]
       r j
  have 1: "response (send_correspondence_email broken_env example_db example_request 1)
       = JsonResponse
           [(''success'', JBool False),
            (''error'', JStr ''Error sending email: connection to db-primary:5432 refused'')]
     \<and> logged (send_correspondence_email broken_env example_db example_request 1)
       = [Log ERROR ''Unexpected error in send_correspondence_email: connection to db-primary:5432 refused'' True]"
    by simp
  from unexpected_exception_is_reported
         [of failing_write_env "''deadlock detected''" example_db example_request 1
             example_entry example_message "[]" "[]"]
       failing_write_ready p s u j
  have 2: "response (send_correspondence_email failing_write_env example_db example_request 1)
       = JsonResponse
           [(''success'', JBool False), (''error'', JStr ''Error sending email: deadlock detected'')]
     \<and> db_after (send_correspondence_email failing_write_env example_db example_request 1) = example_db"
    by simp
  from unexpected_exception_is_reported
         [of example_env "''invalid id: abc''" "db_with malformed_entry" example_request 1
             malformed_entry]
       malformed_ready q j
  have 3: "response (send_correspondence_email example_env (db_with malformed_entry) example_request 1)
       = JsonResponse
           [(''success'', JBool False), (''error'', JStr ''Error preparing email: invalid id: abc'')]"
    by simp
  from 1 2 3 r failing_write_ready p s u malformed_ready q show ?thesis by simp
qed

subsection \<open>C9: the template fallback\<close>

lemma success_exit_logged:
  "logged (success_exit env req d errs db lg out) =
     lg @ (if errs \<noteq> [] then [Log WARNING (warning_msg errs) False] else [])"
  by (simp add: success_exit_def Let_def)







subsection \<open>C4: attachments that cannot be fetched\<close>

lemma attached_or_failed: "(attached env a = None) = (attachment_failure env a \<noteq> None)"
  by (cases "s3_get_object env (s3_key a)") (simp_all add: attached_def attachment_failure_def)

lemma length_attached:
  "length (List.map_filter (attached env) as)
     = length as - length (List.map_filter (attachment_failure env) as)
   \<and> length (List.map_filter (attachment_failure env) as) \<le> length as"
proof (induction as)
  case Nil
  then show ?case by (simp add: List.map_filter_simps)
next
  case (Cons a as)
  show ?case
  proof (cases "attached env a")
    case None
    then obtain f where "attachment_failure env a = Some f"
      using attached_or_failed [of env a] by auto
    with None Cons show ?thesis by (simp add: List.map_filter_simps)
  next
    case (Some t)
    then have "attachment_failure env a = None"
      using attached_or_failed [of env a] by auto
    with Some Cons show ?thesis by (simp add: List.map_filter_simps Suc_diff_le)
  qed
qed

lemma length_failures:
  "length (List.map_filter (attachment_failure env) as)
     = length (filter (\<lambda>a. attached env a = None) as)"
proof (induction as)
  case Nil
  then show ?case by (simp add: List.map_filter_simps)
next
  case (Cons a as)
  then show ?case
    using attached_or_failed [of env a]
    by (cases "attachment_failure env a") (auto simp: List.map_filter_simps)
qed

lemma success_exit_response:
  "response (success_exit env req d errs db lg out) =
     (if wants_json req
      then JsonResponse
             ([(''success'', JBool True), (''message'', JStr (success_msg d))]
              @ (if errs \<noteq> [] then [(''warning'', JStr (warning_msg errs))] else [])
              @ [(''status'', JStr ''Sent''), (''sent_date'', JStr (isoformat env (now env 3)))])
      else redirect_back d)"
  "flash (success_exit env req d errs db lg out) =
     (if wants_json req then []
      else (SUCCESS, success_msg d) # (if errs \<noteq> [] then [(WARNING, warning_msg errs)] else []))"
  by (simp_all add: success_exit_def Let_def)

text \<open>
  Claim C4. Let the record have \<open>N\<close> attachment descriptors that are not deleted, of which
  \<open>M\<close> cannot be fetched. Each failure is recorded as a string (\<open>S3 error for ...\<close> or
  \<open>Failed to attach ...\<close>) and the loop goes on: whatever \<open>M\<close> is, the message is handed to
  the transport, with the \<open>N - M\<close> files that were fetched, in order. When the transport
  accepts it and the send is recorded, the response is the success response; it carries
  a warning exactly when \<open>M > 0\<close>, and the warning is
  \<open>Email sent, but some attachments failed: \<close> followed by the first three failures joined
  with \<open>; \<close> and, when \<open>M > 3\<close>, by \<open> and (M - 3) more...\<close>; the warning is logged.
\<close>

theorem attachment_failures_do_not_abort:
  assumes "draft_ready env db email_id e"
    and "lookup_purge_info env db (dict_of (entry_fields e)) = Inr purge_info"
  shows "\<exists>m. outbox (send_correspondence_email env db req email_id) = [m]
           \<and> msg_attachments m = List.map_filter (attached env) (attachments_of db email_id)
           \<and> length (msg_attachments m)
               = length (attachments_of db email_id)
                 - length (filter (\<lambda>a. attached env a = None) (attachments_of db email_id))
           \<and> length (List.map_filter (attachment_failure env) (attachments_of db email_id))
               = length (filter (\<lambda>a. attached env a = None) (attachments_of db email_id))
           \<and> (send env m = None \<and> fst (update_status env req email_id e db) = None \<longrightarrow>
                response (send_correspondence_email env db req email_id) =
                  (if wants_json req
                   then JsonResponse
                     ([(''success'', JBool True),
                       (''message'', JStr (success_msg (dict_of (entry_fields e))))]
                      @ (if List.map_filter (attachment_failure env) (attachments_of db email_id) \<noteq> []
                         then [(''warning'', JStr
                            (''Email sent, but some attachments failed: ''
                             @ join ''; '' (take 3 (List.map_filter (attachment_failure env)
                                                      (attachments_of db email_id)))
                             @ (if length (List.map_filter (attachment_failure env)
                                             (attachments_of db email_id)) > 3
                                then '' and ''
                                     @ str_nat (length (List.map_filter (attachment_failure env)
                                                          (attachments_of db email_id)) - 3)
                                     @ '' more...''
                                else [])))]
                         else [])
                      @ [(''status'', JStr ''Sent''),
                         (''sent_date'', JStr (isoformat env (now env 3)))])
                   else redirect_back (dict_of (entry_fields e)))
                \<and> flash (send_correspondence_email env db req email_id) =
                  (if wants_json req then []
                   else (SUCCESS, success_msg (dict_of (entry_fields e)))
                        # (if List.map_filter (attachment_failure env) (attachments_of db email_id) \<noteq> []
                           then [(WARNING, warning_msg (List.map_filter (attachment_failure env)
                                                          (attachments_of db email_id)))]
                           else []))
                \<and> (List.map_filter (attachment_failure env) (attachments_of db email_id) \<noteq> [] \<longrightarrow>
                     Log WARNING (warning_msg (List.map_filter (attachment_failure env)
                                                 (attachments_of db email_id))) False
                       \<in> set (logged (send_correspondence_email env db req email_id))))"
proof -
  let ?d = "dict_of (entry_fields e)"
  let ?atts = "attachments_of db email_id"
  let ?errs = "List.map_filter (attachment_failure env) ?atts"
  from prepare_email_Inr [OF assms(2), of req email_id] obtain m lg where
    prep: "prepare_email env db req email_id ?d = Inr (m, ?errs, lg)" and
    att: "msg_attachments m = List.map_filter (attached env) ?atts"
    by simp
  have out: "outbox (send_correspondence_email env db req email_id) = [m]"
    by (rule handler_reaches_send [OF assms(1) prep])
  have n: "length (msg_attachments m) = length ?atts - length (filter (\<lambda>a. attached env a = None) ?atts)"
    using length_attached [of env ?atts] by (simp add: att length_failures)
  have ok: "response (send_correspondence_email env db req email_id) =
              response (success_exit env req ?d ?errs db' lg [m])
            \<and> flash (send_correspondence_email env db req email_id) =
              flash (success_exit env req ?d ?errs db' lg [m])
            \<and> logged (send_correspondence_email env db req email_id) =
              logged (success_exit env req ?d ?errs db' lg [m])"
    if "send env m = None" "update_status env req email_id e db = (None, db')" for db'
    using handler_sent [OF assms(1) prep that(1)] that(2) by simp
  have resp: "send env m = None \<and> fst (update_status env req email_id e db) = None \<longrightarrow>
        response (send_correspondence_email env db req email_id) =
                  (if wants_json req
                   then JsonResponse
                     ([(''success'', JBool True), (''message'', JStr (success_msg ?d))]
                      @ (if ?errs \<noteq> [] then [(''warning'', JStr (warning_msg ?errs))] else [])
                      @ [(''status'', JStr ''Sent''),
                         (''sent_date'', JStr (isoformat env (now env 3)))])
                   else redirect_back ?d)
        \<and> flash (send_correspondence_email env db req email_id) =
                  (if wants_json req then []
                   else (SUCCESS, success_msg ?d)
                        # (if ?errs \<noteq> [] then [(WARNING, warning_msg ?errs)] else []))
        \<and> (?errs \<noteq> [] \<longrightarrow>
              Log WARNING (warning_msg ?errs) False
                \<in> set (logged (send_correspondence_email env db req email_id)))"
  proof
    assume a: "send env m = None \<and> fst (update_status env req email_id e db) = None"
    then obtain db' where "update_status env req email_id e db = (None, db')"
      by (cases "update_status env req email_id e db") auto
    with a ok [of db'] show "response (send_correspondence_email env db req email_id) =
                  (if wants_json req
                   then JsonResponse
                     ([(''success'', JBool True), (''message'', JStr (success_msg ?d))]
                      @ (if ?errs \<noteq> [] then [(''warning'', JStr (warning_msg ?errs))] else [])
                      @ [(''status'', JStr ''Sent''),
                         (''sent_date'', JStr (isoformat env (now env 3)))])
                   else redirect_back ?d)
        \<and> flash (send_correspondence_email env db req email_id) =
                  (if wants_json req then []
                   else (SUCCESS, success_msg ?d)
                        # (if ?errs \<noteq> [] then [(WARNING, warning_msg ?errs)] else []))
        \<and> (?errs \<noteq> [] \<longrightarrow>
              Log WARNING (warning_msg ?errs) False
                \<in> set (logged (send_correspondence_email env db req email_id)))"
      by (simp add: success_exit_response success_exit_logged)
  qed
  from out att n resp length_failures [of env ?atts] show ?thesis
    unfolding warning_msg_def [of ?errs, symmetric] by blast
qed

lemma attachments_ready: "draft_ready example_env attachments_db 1 example_entry"
  unfolding draft_ready_def by (intro conjI) code_simp+

theorem attachment_failures_do_not_abort_witness:
  "(draft_ready example_env attachments_db 1 example_entry
    \<and> lookup_purge_info example_env attachments_db (dict_of (entry_fields example_entry)) = Inr [])
   \<and> length (attachments_of attachments_db 1) = 6
   \<and> length (filter (\<lambda>a. attached example_env a = None) (attachments_of attachments_db 1)) = 5
   \<and> map (\<lambda>m. length (msg_attachments m))
        (outbox (send_correspondence_email example_env attachments_db example_request 1)) = [1]
   \<and> response (send_correspondence_email example_env attachments_db example_request 1)
       = JsonResponse
           [(''success'', JBool True),
            (''message'', JStr ''Email 'Hi' has been sent successfully to bob@example.com.''),
            (''warning'', JStr ''Email sent, but some attachments failed: S3 error for f2.pdf: NoSuchKey; Failed to attach f4.pdf: timeout; S3 error for f5.pdf: NoSuchKey and 2 more...''),
            (''status'', JStr ''Sent''), (''sent_date'', JStr ''T103'')]"
proof -
  have l: "lookup_purge_info example_env attachments_db (dict_of (entry_fields example_entry)) = Inr []"
    by code_simp
  have n: "length (attachments_of attachments_db 1) = 6" by code_simp
  have f: "length (filter (\<lambda>a. attached example_env a = None) (attachments_of attachments_db 1)) = 5"
    by code_simp
  have r: "response (send_correspondence_email example_env attachments_db example_request 1)
       = JsonResponse
           [(''success'', JBool True),
            (''message'', JStr ''Email 'Hi' has been sent successfully to bob@example.com.''),
            (''warning'', JStr ''Email sent, but some attachments failed: S3 error for f2.pdf: NoSuchKey; Failed to attach f4.pdf: timeout; S3 error for f5.pdf: NoSuchKey and 2 more...''),
            (''status'', JStr ''Sent''), (''sent_date'', JStr ''T103'')]"
    by code_simp
  from attachment_failures_do_not_abort [OF attachments_ready l, of example_request] n f
  have "map (\<lambda>m. length (msg_attachments m))
          (outbox (send_correspondence_email example_env attachments_db example_request 1)) = [1]"
    by auto
  with attachments_ready l n f r show ?thesis by simp
qed

subsection \<open>C1: the status is written after the send, all or nothing\<close>

lemma store_unchanged_or_sent:
  "(db_after (send_correspondence_email env db req email_id) = db
    \<or> (\<exists>e e' m.
          entries db email_id = Some e
          \<and> outbox (send_correspondence_email env db req email_id) = [m]
          \<and> send env m = None
          \<and> db_after (send_correspondence_email env db req email_id) =
              db\<lparr>entries := (entries db)(email_id \<mapsto> e')\<rparr>
          \<and> dict_of (entry_fields e') =
              (dict_of (entry_fields e))
                (''status'' \<mapsto> ''Sent'',
                 ''sent_date'' \<mapsto> isoformat env (now env 1),
                 ''sent_by'' \<mapsto> username (req_user req))
          \<and> map fst (entry_fields e') =
              map fst (entry_fields e)
              @ [k \<leftarrow> [''status'', ''sent_date'', ''sent_by'']. k \<notin> fst ` set (entry_fields e)]
          \<and> modified_at e' = now env 2
          \<and> section_key e' = section_key e))
   \<and> (outbox (send_correspondence_email env db req email_id) = [m0] \<and> send env m0 = Some x0
        \<longrightarrow> db_after (send_correspondence_email env db req email_id) = db)"
proof -
  let ?out = "send_correspondence_email env db req email_id"
  let ?key = "[''purge/internal/email'']"
  consider (read) x where "db_read_error env = Some x"
    | (absent) x where "db_read_error env = None" "get_entry db email_id ?key = Inl x"
    | (missing) e where "db_read_error env = None" "get_entry db email_id ?key = Inr e"
        "missing_fields (dict_of (entry_fields e)) \<noteq> []"
    | (status) e where "db_read_error env = None" "get_entry db email_id ?key = Inr e"
        "missing_fields (dict_of (entry_fields e)) = []"
        "get_default (dict_of (entry_fields e)) ''status'' '''' \<noteq> ''Draft''"
    | (ready) e where "draft_ready env db email_id e"
    unfolding draft_ready_def
    by (cases "db_read_error env"; cases "get_entry db email_id ?key") auto
  then show ?thesis
  proof cases
    case read
    then show ?thesis by (simp add: handler_read_error)
  next
    case absent
    then show ?thesis by (simp add: handler_not_found)
  next
    case missing
    then show ?thesis by (simp add: handler_missing)
  next
    case status
    then show ?thesis by (simp add: handler_not_draft)
  next
    case ready
    then have e: "entries db email_id = Some e"
      using get_entry_Inr [of db email_id ?key e] by (simp add: draft_ready_def)
    show ?thesis
    proof (cases "prepare_email env db req email_id (dict_of (entry_fields e))")
      case (Inl x)
      with ready show ?thesis by (simp add: handler_prep_error)
    next
      case (Inr r)
      then obtain m errs lg where
        prep: "prepare_email env db req email_id (dict_of (entry_fields e)) = Inr (m, errs, lg)"
        by (cases r) auto
      show ?thesis
      proof (cases "send env m")
        case (Some x)
        with ready prep show ?thesis by (simp add: handler_send_failed)
      next
        case None
        note sent = handler_sent [OF ready prep None]
        obtain r db' where u: "update_status env req email_id e db = (r, db')"
          by (cases "update_status env req email_id e db")
        show ?thesis
        proof (cases r)
          case (Some x)
          with u have "db' = db" by (simp add: update_status_failed)
          with sent u Some None show ?thesis by simp
        next
          case none: None
          let ?e' = "e\<lparr>entry_fields := apply_plan (entry_fields e) (plan_updates env req (entry_fields e)),
                       modified_at := now env 2\<rparr>"
          from u none have db': "db' = db\<lparr>entries := (entries db)(email_id \<mapsto> ?e')\<rparr>"
            using update_status_done [OF e] by simp
          from sent u none have out: "outbox ?out = [m]" "db_after ?out = db'"
            by simp_all
          have "entries db email_id = Some e \<and> outbox ?out = [m] \<and> send env m = None
                \<and> db_after ?out = db\<lparr>entries := (entries db)(email_id \<mapsto> ?e')\<rparr>
                \<and> dict_of (entry_fields ?e') =
                    (dict_of (entry_fields e))
                      (''status'' \<mapsto> ''Sent'',
                       ''sent_date'' \<mapsto> isoformat env (now env 1),
                       ''sent_by'' \<mapsto> username (req_user req))
                \<and> map fst (entry_fields ?e') =
                    map fst (entry_fields e)
                    @ [k \<leftarrow> [''status'', ''sent_date'', ''sent_by'']. k \<notin> fst ` set (entry_fields e)]
                \<and> modified_at ?e' = now env 2
                \<and> section_key ?e' = section_key e"
            using e out db' None by (simp add: plan_updates_dict plan_updates_keys)
          then have ex: "\<exists>e e' m.
              entries db email_id = Some e \<and> outbox ?out = [m] \<and> send env m = None
              \<and> db_after ?out = db\<lparr>entries := (entries db)(email_id \<mapsto> e')\<rparr>
              \<and> dict_of (entry_fields e') =
                  (dict_of (entry_fields e))
                    (''status'' \<mapsto> ''Sent'',
                     ''sent_date'' \<mapsto> isoformat env (now env 1),
                     ''sent_by'' \<mapsto> username (req_user req))
              \<and> map fst (entry_fields e') =
                  map fst (entry_fields e)
                  @ [k \<leftarrow> [''status'', ''sent_date'', ''sent_by'']. k \<notin> fst ` set (entry_fields e)]
              \<and> modified_at e' = now env 2
              \<and> section_key e' = section_key e"
            by blast
          from out None have "\<not> (outbox ?out = [m0] \<and> send env m0 = Some x0)" by auto
          with ex show ?thesis by blast
        qed
      qed
    qed
  qed
qed

lemma update_status_no_error:
  assumes "db_write_error env BulkCreate = None"
    and "db_write_error env BulkUpdate = None"
    and "db_write_error env SaveEntry = None"
  shows "fst (update_status env req email_id e db) = None"
  using assms
  by (cases "plan_updates env req (entry_fields e)")
     (simp add: update_status_def atomic_def transaction_body_def write_op_def)

lemma sent_and_recorded:
  assumes e: "entries db email_id = Some e"
    and out: "outbox (send_correspondence_email env db req email_id) = [m]"
    and sent: "send env m = None"
    and w: "db_write_error env BulkCreate = None" "db_write_error env BulkUpdate = None"
           "db_write_error env SaveEntry = None"
  shows "db_after (send_correspondence_email env db req email_id) =
           db\<lparr>entries := (entries db)(email_id \<mapsto>
                e\<lparr>entry_fields := apply_plan (entry_fields e) (plan_updates env req (entry_fields e)),
                  modified_at := now env 2\<rparr>)\<rparr>"
proof -
  from out have "m \<in> set (outbox (send_correspondence_email env db req email_id))" by simp
  from outbox_message [OF this] obtain e' errs lg where
    ready: "draft_ready env db email_id e'" and
    prep: "prepare_email env db req email_id (dict_of (entry_fields e')) = Inr (m, errs, lg)"
    by blast
  from ready have "entries db email_id = Some e'"
    using get_entry_Inr [of db email_id "[''purge/internal/email'']" e']
    by (simp add: draft_ready_def)
  with e have same: "e' = e" by simp
  obtain r db' where u: "update_status env req email_id e db = (r, db')"
    by (cases "update_status env req email_id e db")
  with update_status_no_error [OF w, of req email_id e db] have r: "r = None" by simp
  from u r update_status_done [OF e] have db': "db' =
      db\<lparr>entries := (entries db)(email_id \<mapsto>
           e\<lparr>entry_fields := apply_plan (entry_fields e) (plan_updates env req (entry_fields e)),
             modified_at := now env 2\<rparr>)\<rparr>"
    by simp
  from handler_sent [OF ready prep sent] same u r
  have "db_after (send_correspondence_email env db req email_id) = db'" by simp
  with db' show ?thesis by simp
qed

text \<open>
  Claim C1. Whatever the request and whatever fails, the record store after the handler is
  either the store it started from, or the transport accepted the one message handed to
  it and the record then has \<open>status = Sent\<close>, \<open>sent_date\<close> and \<open>sent_by\<close> all written
  (a key that had a row keeps its row and the order of the rows, a key without one gets a
  new row at the end) together with the new modification time. No state in between is
  left behind: a write that raises inside the transaction restores the store. When the
  transport raises on the message, nothing is changed. When the transport accepts the
  message and no write raises, the three fields and the modification time are written, and
  every other field of the record keeps its value.
\<close>

theorem status_update_all_or_nothing:
  "(db_after (send_correspondence_email env db req email_id) = db
    \<or> (\<exists>e e' m.
          entries db email_id = Some e
          \<and> outbox (send_correspondence_email env db req email_id) = [m]
          \<and> send env m = None
          \<and> db_after (send_correspondence_email env db req email_id) =
              db\<lparr>entries := (entries db)(email_id \<mapsto> e')\<rparr>
          \<and> dict_of (entry_fields e') =
              (dict_of (entry_fields e))
                (''status'' \<mapsto> ''Sent'',
                 ''sent_date'' \<mapsto> isoformat env (now env 1),
                 ''sent_by'' \<mapsto> username (req_user req))
          \<and> map fst (entry_fields e') =
              map fst (entry_fields e)
              @ [k \<leftarrow> [''status'', ''sent_date'', ''sent_by'']. k \<notin> fst ` set (entry_fields e)]
          \<and> modified_at e' = now env 2
          \<and> section_key e' = section_key e))
   \<and> (outbox (send_correspondence_email env db req email_id) = [m0] \<and> send env m0 = Some x0
        \<longrightarrow> db_after (send_correspondence_email env db req email_id) = db)
   \<and> (entries db email_id = Some e0
       \<and> outbox (send_correspondence_email env db req email_id) = [m1] \<and> send env m1 = None
       \<and> db_write_error env BulkCreate = None
       \<and> db_write_error env BulkUpdate = None
       \<and> db_write_error env SaveEntry = None
        \<longrightarrow> (\<exists>e'. db_after (send_correspondence_email env db req email_id) =
                    db\<lparr>entries := (entries db)(email_id \<mapsto> e')\<rparr>
                \<and> dict_of (entry_fields e') =
                    (dict_of (entry_fields e0))
                      (''status'' \<mapsto> ''Sent'',
                       ''sent_date'' \<mapsto> isoformat env (now env 1),
                       ''sent_by'' \<mapsto> username (req_user req))
                \<and> map fst (entry_fields e') =
                    map fst (entry_fields e0)
                    @ [k \<leftarrow> [''status'', ''sent_date'', ''sent_by'']. k \<notin> fst ` set (entry_fields e0)]
                \<and> modified_at e' = now env 2
                \<and> section_key e' = section_key e0))"
proof -
  let ?out = "send_correspondence_email env db req email_id"
  have c: "\<exists>e'. db_after ?out = db\<lparr>entries := (entries db)(email_id \<mapsto> e')\<rparr>
                \<and> dict_of (entry_fields e') =
                    (dict_of (entry_fields e0))
                      (''status'' \<mapsto> ''Sent'',
                       ''sent_date'' \<mapsto> isoformat env (now env 1),
                       ''sent_by'' \<mapsto> username (req_user req))
                \<and> map fst (entry_fields e') =
                    map fst (entry_fields e0)
                    @ [k \<leftarrow> [''status'', ''sent_date'', ''sent_by'']. k \<notin> fst ` set (entry_fields e0)]
                \<and> modified_at e' = now env 2
                \<and> section_key e' = section_key e0"
    if "entries db email_id = Some e0" "outbox ?out = [m1]" "send env m1 = None"
       "db_write_error env BulkCreate = None" "db_write_error env BulkUpdate = None"
       "db_write_error env SaveEntry = None"
  proof -
    let ?e' = "e0\<lparr>entry_fields := apply_plan (entry_fields e0) (plan_updates env req (entry_fields e0)),
                  modified_at := now env 2\<rparr>"
    have "db_after ?out = db\<lparr>entries := (entries db)(email_id \<mapsto> ?e')\<rparr>"
      by (rule sent_and_recorded [OF that])
    moreover have "dict_of (entry_fields ?e') =
                    (dict_of (entry_fields e0))
                      (''status'' \<mapsto> ''Sent'',
                       ''sent_date'' \<mapsto> isoformat env (now env 1),
                       ''sent_by'' \<mapsto> username (req_user req))"
      by (simp add: plan_updates_dict)
    moreover have "map fst (entry_fields ?e') =
                    map fst (entry_fields e0)
                    @ [k \<leftarrow> [''status'', ''sent_date'', ''sent_by'']. k \<notin> fst ` set (entry_fields e0)]"
      by (simp add: plan_updates_keys)
    moreover have "modified_at ?e' = now env 2 \<and> section_key ?e' = section_key e0" by simp
    ultimately show ?thesis by blast
  qed
  note ab = store_unchanged_or_sent [of env db req email_id m0 x0]
  show ?thesis
    by (rule conjI [OF conjunct1 [OF ab] conjI [OF conjunct2 [OF ab]]], intro impI, elim conjE,
        (rule c; assumption))
qed

lemma example_sent_date: "isoformat example_env (now example_env 1) = ''T101''"
  by code_simp

theorem status_update_all_or_nothing_witness:
  "(outbox (send_correspondence_email refusing_env example_db example_request 1) = [example_message]
    \<and> send refusing_env example_message = Some ''Connection refused'')
   \<and> db_after (send_correspondence_email refusing_env example_db example_request 1) = example_db
   \<and> (entries example_db 1 = Some example_entry
       \<and> outbox (send_correspondence_email example_env example_db example_request 1) = [example_message]
       \<and> send example_env example_message = None
       \<and> db_write_error example_env BulkCreate = None
       \<and> db_write_error example_env BulkUpdate = None
       \<and> db_write_error example_env SaveEntry = None)
   \<and> (\<exists>e'. db_after (send_correspondence_email example_env example_db example_request 1) =
              example_db\<lparr>entries := (entries example_db)(1 \<mapsto> e')\<rparr>
          \<and> dict_of (entry_fields e') ''status'' = Some ''Sent''
          \<and> dict_of (entry_fields e') ''sent_date'' = Some ''T101''
          \<and> dict_of (entry_fields e') ''sent_by'' = Some ''alice''
          \<and> dict_of (entry_fields e') ''subject'' = Some ''Hi''
          \<and> map fst (entry_fields e') =
              [''recipient_email'', ''subject'', ''email_date'', ''email_type'', ''status'',
               ''body_content'', ''sent_date'', ''sent_by'']
          \<and> modified_at e' = 102)"
proof -
  have out: "outbox (send_correspondence_email refusing_env example_db example_request 1)
             = [example_message]"
    by code_simp
  have refused: "send refusing_env example_message = Some ''Connection refused''"
    by (simp add: refusing_env_def)
  note failed = status_update_all_or_nothing
         [of refusing_env example_db example_request 1 example_message "''Connection refused''",
          THEN conjunct2, THEN conjunct1, THEN mp]
  have a: "db_after (send_correspondence_email refusing_env example_db example_request 1) = example_db"
    by (rule failed [OF conjI [OF out refused]])
  have e: "entries example_db 1 = Some example_entry" by (simp add: example_db_def)
  have out': "outbox (send_correspondence_email example_env example_db example_request 1)
             = [example_message]"
    by code_simp
  have acc: "send example_env example_message = None" by (simp add: example_env_def)
  have w: "db_write_error example_env BulkCreate = None" "db_write_error example_env BulkUpdate = None"
    "db_write_error example_env SaveEntry = None"
    by (simp_all add: example_env_def)
  have u: "username (req_user example_request) = ''alice''" by (simp add: example_request_def)
  have t: "now example_env 2 = 102" by (simp add: example_env_def)
  have s: "dict_of (entry_fields example_entry) ''subject'' = Some ''Hi''" by code_simp
  have k: "map fst (entry_fields example_entry)
           @ [k \<leftarrow> [''status'', ''sent_date'', ''sent_by'']. k \<notin> fst ` set (entry_fields example_entry)]
           = [''recipient_email'', ''subject'', ''email_date'', ''email_type'', ''status'',
               ''body_content'', ''sent_date'', ''sent_by'']"
    by code_simp
  note recorded = status_update_all_or_nothing
         [of example_env example_db example_request 1 example_message "[]" example_entry
             example_message, THEN conjunct2, THEN conjunct2, THEN mp]
  have "entries example_db 1 = Some example_entry
       \<and> outbox (send_correspondence_email example_env example_db example_request 1) = [example_message]
       \<and> send example_env example_message = None
       \<and> db_write_error example_env BulkCreate = None
       \<and> db_write_error example_env BulkUpdate = None
       \<and> db_write_error example_env SaveEntry = None"
    by (intro conjI) (rule e out' acc w)+
  from recorded [OF this]
  obtain e' where h:
    "db_after (send_correspondence_email example_env example_db example_request 1) =
              example_db\<lparr>entries := (entries example_db)(1 \<mapsto> e')\<rparr>
     \<and> dict_of (entry_fields e') =
       (dict_of (entry_fields example_entry))
         (''status'' \<mapsto> ''Sent'',
          ''sent_date'' \<mapsto> isoformat example_env (now example_env 1),
          ''sent_by'' \<mapsto> username (req_user example_request))
     \<and> map fst (entry_fields e') =
       map fst (entry_fields example_entry)
       @ [k \<leftarrow> [''status'', ''sent_date'', ''sent_by'']. k \<notin> fst ` set (entry_fields example_entry)]
     \<and> modified_at e' = now example_env 2
     \<and> section_key e' = section_key example_entry"
    by (rule exE)
  note h1 = h [THEN conjunct1]
  note h2 = h [THEN conjunct2, THEN conjunct1]
  note h3 = h [THEN conjunct2, THEN conjunct2, THEN conjunct1]
  note h4 = h [THEN conjunct2, THEN conjunct2, THEN conjunct2, THEN conjunct1]
  have d1: "dict_of (entry_fields e') ''status'' = Some ''Sent''"
    unfolding h2 by simp
  have d2: "dict_of (entry_fields e') ''sent_date'' = Some ''T101''"
    unfolding h2 example_sent_date by simp
  have d3: "dict_of (entry_fields e') ''sent_by'' = Some ''alice''"
    unfolding h2 by (simp add: u)
  have d4: "dict_of (entry_fields e') ''subject'' = Some ''Hi''"
    unfolding h2 by (simp add: s)
  have d5: "map fst (entry_fields e') =
              [''recipient_email'', ''subject'', ''email_date'', ''email_type'', ''status'',
               ''body_content'', ''sent_date'', ''sent_by'']"
    unfolding h3 by (rule k)
  have d6: "modified_at e' = 102"
    unfolding h4 by (rule t)
  have ex: "\<exists>e'. db_after (send_correspondence_email example_env example_db example_request 1) =
              example_db\<lparr>entries := (entries example_db)(1 \<mapsto> e')\<rparr>
          \<and> dict_of (entry_fields e') ''status'' = Some ''Sent''
          \<and> dict_of (entry_fields e') ''sent_date'' = Some ''T101''
          \<and> dict_of (entry_fields e') ''sent_by'' = Some ''alice''
          \<and> dict_of (entry_fields e') ''subject'' = Some ''Hi''
          \<and> map fst (entry_fields e') =
              [''recipient_email'', ''subject'', ''email_date'', ''email_type'', ''status'',
               ''body_content'', ''sent_date'', ''sent_by'']
          \<and> modified_at e' = 102"
    by (rule exI [of _ e'], intro conjI) (rule h1 d1 d2 d3 d4 d5 d6)+
  show ?thesis
    by (intro conjI) (rule out refused a e out' acc w ex)+
qed

end
